theory Spec2Isabelle
  imports Main "HOL-Library.Word"
begin

unbundle bit_operations_syntax

text \<open>
  A shallow embedding of ppp.c, the PPP session engine of the OpenConnect VPN client:
  the HDLC byte stuffing, the TLV options of Configure-Requests, the dispatch of
  received control packets, the session state machine, the receive path of
  \<open>ppp_mainloop\<close> and the headers it writes in front of an outgoing packet. Logging
  (\<open>vpn_progress\<close>, \<open>dump_buf_hex\<close>) has no effect on the state and is left out, as
  are the keepalive timestamps \<open>ssl_times\<close> and the part of \<open>ppp_mainloop\<close> that writes
  to the transport and consults the keepalive scheduler (lines 679-752).
\<close>

section \<open>Bytes and big-endian helpers\<close>

type_synonym u8 = "8 word"
type_synonym u16 = "16 word"
type_synonym u32 = "32 word"
type_synonym u64 = "64 word"

text \<open>
  A C pointer into a buffer is modelled as a function from integer offsets to bytes, so
  that \<open>p[i]\<close> is \<open>p i\<close> and \<open>p + k\<close> is \<open>ptr_add p k\<close>. Lengths travel separately,
  as they do in the C code.
\<close>

type_synonym ptr = "int \<Rightarrow> u8"

definition ptr_add :: "ptr \<Rightarrow> int \<Rightarrow> ptr" where
  "ptr_add p k = (\<lambda>i. p (k + i))"

definition mem_of :: "u8 list \<Rightarrow> ptr" where
  "mem_of xs = (\<lambda>i. if 0 \<le> i \<and> i < int (length xs) then xs ! nat i else 0)"

definition bytes_at :: "ptr \<Rightarrow> int \<Rightarrow> u8 list" where
  "bytes_at p n = map (\<lambda>k. p (int k)) [0 ..< nat n]"

text \<open>
  Modelled from the spec: \<open>load_be16\<close>, \<open>load_be32\<close>, \<open>store_be16\<close> and \<open>store_be32\<close>
  are declared in openconnect-internal.h, which is not among the sources; the spec calls
  them the helpers that read and serialise big-endian u16 and u32 values.
\<close>

definition load_be16 :: "ptr \<Rightarrow> int" where
  "load_be16 p = uint (p 0) * 256 + uint (p 1)"

definition load_be32 :: "ptr \<Rightarrow> u32" where
  "load_be32 p = push_bit 24 (ucast (p 0)) OR push_bit 16 (ucast (p 1))
                 OR push_bit 8 (ucast (p 2)) OR ucast (p 3)"

definition store_be16 :: "u16 \<Rightarrow> u8 list" where
  "store_be16 v = [ucast (drop_bit 8 v), ucast v]"

definition store_be32 :: "u32 \<Rightarrow> u8 list" where
  "store_be32 v = [ucast (drop_bit 24 v), ucast (drop_bit 16 v), ucast (drop_bit 8 v), ucast v]"

section \<open>HDLC byte stuffing (ppp.c, lines 45-66)\<close>

definition ASYNCMAP_LCP :: u32 where
  "ASYNCMAP_LCP = 0xffffffff"

text \<open>
  The macro \<open>NEED_ESCAPE(c, map)\<close> as written: its middle operand is the logical
  conjunction \<open>map && (1UL << c)\<close> of two integers, each read as "is not zero".
\<close>

definition NEED_ESCAPE :: "u8 \<Rightarrow> u32 \<Rightarrow> bool" where
  "NEED_ESCAPE c asyncmap =
     ((c < 0x20 \<and> (asyncmap \<noteq> 0 \<and> push_bit (unat c) (1 :: u64) \<noteq> 0)) \<or> c = 0x7d \<or> c = 0x7e)"

text \<open>
  Modelled from the spec: \<open>struct oc_text_buf\<close> and \<open>buf_append_bytes\<close> are defined
  in another file of the repository. The spec speaks of bytes that are emitted and
  pass through verbatim: the buffer is modelled by the bytes it holds, and
  \<open>buf_append_bytes\<close> appends \<open>n\<close> bytes read from a pointer, given here as the list
  of bytes that start there.
\<close>

definition buf_append_bytes :: "u8 list \<Rightarrow> u8 list \<Rightarrow> nat \<Rightarrow> u8 list" where
  "buf_append_bytes buf src n = buf @ take n src"

text \<open>
  The \<open>for\<close> loop of \<open>buf_append_ppphdlc\<close>, with its loop variables \<open>i\<close> and \<open>s\<close>
  and the buffer as arguments; \<open>len\<close> is the length of \<open>bytes\<close>.
\<close>

function buf_append_ppphdlc_loop :: "u8 list \<Rightarrow> u32 \<Rightarrow> nat \<Rightarrow> nat \<Rightarrow> u8 list \<Rightarrow> u8 list" where
  "buf_append_ppphdlc_loop bytes asyncmap i s buf =
     (if i < length bytes then
        (if NEED_ESCAPE (bytes ! i) asyncmap then
           (let buf1 = (if i > s then buf_append_bytes buf (drop s bytes) (i - s - 1) else buf);
                esc = [0x7d, (bytes ! i) XOR 0x20];
                buf2 = buf_append_bytes buf1 esc 2
            in buf_append_ppphdlc_loop bytes asyncmap (i + 1) (i + 1) buf2)
         else buf_append_ppphdlc_loop bytes asyncmap (i + 1) s buf)
      else buf)"
  by pat_completeness auto
termination
  by (relation "measure (\<lambda>(bytes, asyncmap, i, s, buf). length bytes - i)") auto

declare buf_append_ppphdlc_loop.simps [simp del]

definition buf_append_ppphdlc :: "u8 list \<Rightarrow> u8 list \<Rightarrow> u32 \<Rightarrow> u8 list" where
  "buf_append_ppphdlc buf bytes asyncmap = buf_append_ppphdlc_loop bytes asyncmap 0 0 buf"

text \<open>
  The byte stuffing as the specification words it: a byte is escaped iff it is below
  \<open>0x20\<close> with its bit set in the asyncmap, or is \<open>0x7d\<close> or \<open>0x7e\<close>; an escaped byte
  becomes \<open>0x7d\<close> and the byte XOR \<open>0x20\<close>; every other byte passes through.
\<close>

definition spec_need_escape :: "u8 \<Rightarrow> u32 \<Rightarrow> bool" where
  "spec_need_escape c asyncmap = ((c < 0x20 \<and> bit asyncmap (unat c)) \<or> c = 0x7d \<or> c = 0x7e)"

fun spec_hdlc_escape :: "u8 list \<Rightarrow> u32 \<Rightarrow> u8 list" where
  "spec_hdlc_escape [] asyncmap = []"
| "spec_hdlc_escape (c # cs) asyncmap =
     (if spec_need_escape c asyncmap then [0x7d, c XOR 0x20] else [c]) @ spec_hdlc_escape cs asyncmap"

section \<open>Constants (ppp.c, lines 24-88)\<close>

definition PPP_LCP :: int where "PPP_LCP = 0xc021"
definition PPP_IPCP :: int where "PPP_IPCP = 0x8021"
definition PPP_IP6CP :: int where "PPP_IP6CP = 0x8057"
definition PPP_IP :: int where "PPP_IP = 0x21"
definition PPP_IP6 :: int where "PPP_IP6 = 0x57"

definition CONFREQ :: int where "CONFREQ = 1"
definition CONFACK :: int where "CONFACK = 2"
definition CONFNAK :: int where "CONFNAK = 3"
definition CONFREJ :: int where "CONFREJ = 4"
definition TERMREQ :: int where "TERMREQ = 5"
definition TERMACK :: int where "TERMACK = 6"
definition CODEREJ :: int where "CODEREJ = 7"
definition PROTREJ :: int where "PROTREJ = 8"
definition ECHOREQ :: int where "ECHOREQ = 9"
definition ECHOREP :: int where "ECHOREP = 10"
definition DISCREQ :: int where "DISCREQ = 11"

definition ACCOMP :: int where "ACCOMP = 1"
definition PFCOMP :: int where "PFCOMP = 2"
definition VJCOMP :: int where "VJCOMP = 4"

definition PPPS_DEAD :: int where "PPPS_DEAD = 0"
definition PPPS_ESTABLISH :: int where "PPPS_ESTABLISH = 1"
definition PPPS_OPENED :: int where "PPPS_OPENED = 2"
definition PPPS_AUTHENTICATE :: int where "PPPS_AUTHENTICATE = 3"
definition PPPS_NETWORK :: int where "PPPS_NETWORK = 4"
definition PPPS_TERMINATE :: int where "PPPS_TERMINATE = 5"

definition NCP_CONF_REQ_RECEIVED :: int where "NCP_CONF_REQ_RECEIVED = 1"
definition NCP_CONF_REQ_SENT :: int where "NCP_CONF_REQ_SENT = 2"
definition NCP_CONF_ACK_RECEIVED :: int where "NCP_CONF_ACK_RECEIVED = 4"
definition NCP_CONF_ACK_SENT :: int where "NCP_CONF_ACK_SENT = 8"
definition NCP_TERM_REQ_SENT :: int where "NCP_TERM_REQ_SENT = 16"
definition NCP_TERM_REQ_RECEIVED :: int where "NCP_TERM_REQ_RECEIVED = 32"
definition NCP_TERM_ACK_SENT :: int where "NCP_TERM_ACK_SENT = 16"
definition NCP_TERM_ACK_RECEIVED :: int where "NCP_TERM_ACK_RECEIVED = 32"

text \<open>
  Modelled from the spec: the encapsulation constants and the errno values come from
  headers that are not among the sources. The spec names the encapsulations F5 and
  F5_HDLC; the code indexes \<open>encap_names = {"F5", "F5 HDLC"}\<close> with \<open>encap - 1\<close>, which
  makes them 1 and 2. \<open>ENOMEM\<close> and \<open>EINVAL\<close> have their Linux values.
\<close>

definition PPP_ENCAP_F5 :: int where "PPP_ENCAP_F5 = 1"
definition PPP_ENCAP_F5_HDLC :: int where "PPP_ENCAP_F5_HDLC = 2"
definition ENOMEM :: int where "ENOMEM = 12"
definition EINVAL :: int where "EINVAL = 22"

section \<open>Data model (ppp.c, lines 90-154)\<close>

text \<open>
  C \<open>int\<close> and \<open>time_t\<close> fields are modelled by \<open>int\<close>: the code only compares them,
  adds small constants and sets or tests single bits. The fields that the code fills and
  reads with \<open>memcpy\<close> ("stored in on-the-wire order") are modelled by the number their
  bytes spell in network order (\<open>load_be32\<close>, \<open>store_be32\<close>), or by the bytes
  themselves for the 8-byte interface identifier; the only arithmetic on them is the
  bitwise complement of the magic number, which does not depend on the byte order.
\<close>

record oc_ncp =
  state :: int
  ncp_id :: int
  last_req :: int

record oc_ppp =
  encap :: int
  encap_len :: int
  hdlc :: int
  want_ipv4 :: int
  want_ipv6 :: int
  ppp_state :: int
  lcp :: oc_ncp
  ipcp :: oc_ncp
  ip6cp :: oc_ncp
  out_asyncmap :: u32
  out_lcp_opts :: int
  out_lcp_magic :: u32
  out_peer_addr :: u32
  out_ipv6_int_ident :: "u8 list"
  util_id :: u8
  exp_ppp_hdr_size :: int
  in_asyncmap :: u32
  in_lcp_opts :: int
  in_lcp_magic :: u32
  in_peer_addr :: u32
  in_ipv6_int_ident :: "u8 list"

text \<open>
  A \<open>struct pkt\<close>: the protocol stashed in \<open>ppp.proto\<close>, the header length \<open>ppp.hlen\<close>,
  the payload length and bytes, and \<open>pkt_hdr\<close>, the bytes that the sender writes in front
  of the payload at \<open>data[-hlen .. -1]\<close>.
\<close>

record pkt =
  pkt_proto :: int
  pkt_hlen :: int
  pkt_len :: int
  pkt_data :: "u8 list"
  pkt_hdr :: "u8 list"

text \<open>
  The part of \<open>struct openconnect_info\<close> that ppp.c reads and writes. \<open>addr\<close> and
  \<open>addr6\<close> hold what \<open>inet_addr\<close> and \<open>inet_pton\<close> make of the configured address
  strings (\<open>None\<close> for a null string). \<open>cstp_pkt\<close> says whether a receive packet is
  allocated. \<open>malloc_ok\<close> is the environment's answer to an allocation: when it is
  false, \<open>malloc\<close>, \<open>buf_alloc\<close> and \<open>strndup\<close> return a null pointer.
\<close>

record openconnect_info =
  ppp :: oc_ppp
  mtu :: int
  addr :: "u32 option"
  addr6 :: "u8 list option"
  quit_reason :: "string option"
  tcp_control_queue :: "pkt list"
  incoming_queue :: "pkt list"
  outgoing_queue :: "pkt list"
  cstp_pkt :: bool
  ssl_fd :: int
  dtls_connected :: bool
  malloc_ok :: bool

definition ncp_zero :: oc_ncp where
  "ncp_zero = \<lparr>state = 0, ncp_id = 0, last_req = 0\<rparr>"

text \<open>
  \<open>openconnect_ppp_new\<close>: the zeroed (\<open>calloc\<close>) structure with the fields the
  function sets. This is the structure it returns when \<open>calloc\<close> succeeds; when it
  fails the function returns a null pointer and there is no session.
\<close>

definition openconnect_ppp_new :: "int \<Rightarrow> int \<Rightarrow> int \<Rightarrow> oc_ppp" where
  "openconnect_ppp_new e w4 w6 =
     \<lparr>encap = e,
      encap_len = (if e = PPP_ENCAP_F5 then 4 else 0),
      hdlc = (if e = PPP_ENCAP_F5 then 0 else if e = PPP_ENCAP_F5_HDLC then 1 else 0),
      want_ipv4 = w4, want_ipv6 = w6, ppp_state = 0,
      lcp = ncp_zero, ipcp = ncp_zero, ip6cp = ncp_zero,
      out_asyncmap = 0, out_lcp_opts = 0, out_lcp_magic = 0, out_peer_addr = 0,
      out_ipv6_int_ident = replicate 8 0, util_id = 0,
      exp_ppp_hdr_size = 4,
      in_asyncmap = 0, in_lcp_opts = 0, in_lcp_magic = 0, in_peer_addr = 0,
      in_ipv6_int_ident = replicate 8 0\<rparr>"

section \<open>TLV emission and the control queue (ppp.c, lines 167-226)\<close>

definition buf_append_ppp :: "u8 list \<Rightarrow> int \<Rightarrow> u8 list \<Rightarrow> u32 \<Rightarrow> u8 list" where
  "buf_append_ppp buf h bytes asyncmap =
     (if h \<noteq> 0 then buf_append_ppphdlc buf bytes asyncmap
      else buf_append_bytes buf bytes (length bytes))"

text \<open>
  The option value \<open>data\<close> is given as its \<open>len\<close> bytes. The C function returns
  \<open>b[1]\<close>, which no caller reads; the result here is the buffer.
\<close>

definition buf_append_ppp_tlv :: "u8 list \<Rightarrow> int \<Rightarrow> u8 list \<Rightarrow> int \<Rightarrow> u32 \<Rightarrow> u8 list" where
  "buf_append_ppp_tlv buf tag data h asyncmap =
     (let b = [word_of_int tag, word_of_int (int (length data) + 2)];
          buf1 = buf_append_ppp buf h b asyncmap
      in if length data \<noteq> 0 then buf_append_ppp buf1 h data asyncmap else buf1)"

definition buf_append_ppp_tlv_be16 :: "u8 list \<Rightarrow> int \<Rightarrow> u16 \<Rightarrow> int \<Rightarrow> u32 \<Rightarrow> u8 list" where
  "buf_append_ppp_tlv_be16 buf tag val h asyncmap =
     buf_append_ppp_tlv buf tag (store_be16 val) h asyncmap"

definition buf_append_ppp_tlv_be32 :: "u8 list \<Rightarrow> int \<Rightarrow> u32 \<Rightarrow> int \<Rightarrow> u32 \<Rightarrow> u8 list" where
  "buf_append_ppp_tlv_be32 buf tag val h asyncmap =
     buf_append_ppp_tlv buf tag (store_be32 val) h asyncmap"

text \<open>
  Modelled from the spec: \<open>queue_packet\<close> and \<open>dequeue_packet\<close> are defined in another
  file of the repository; the spec expects the queues to be FIFO, so a queue is a list,
  a packet is added at its end and taken from its head.
\<close>

definition queue_packet :: "pkt list \<Rightarrow> pkt \<Rightarrow> pkt list" where
  "queue_packet q p = q @ [p]"

text \<open>
  A call either returns a value, or it writes past the end of an allocation. After such
  a write the C program has no defined behaviour, so \<open>Overrun\<close> carries no state and
  every caller passes it on.
\<close>

datatype 'a outcome = Returns 'a | Overrun

text \<open>
  \<open>queue_config_packet\<close>: the packet is \<open>code, id, be16 (4 + len)\<close> and the payload. The
  code allocates \<open>sizeof(struct pkt) + 64\<close> bytes, that is 64 bytes of \<open>data\<close>: the
  header takes 4 of them and \<open>memcpy\<close> copies \<open>len\<close> bytes behind it, so a payload of
  more than 60 bytes is written past the allocation. A negative \<open>len\<close> is not zero
  either, and \<open>memcpy\<close> takes it for a huge unsigned size.
\<close>

definition queue_config_packet ::
    "openconnect_info \<Rightarrow> u16 \<Rightarrow> int \<Rightarrow> int \<Rightarrow> int \<Rightarrow> ptr \<Rightarrow> (int \<times> openconnect_info) outcome" where
  "queue_config_packet v proto ident code len payload =
     (if \<not> malloc_ok v then Returns (- ENOMEM, v)
      else if len < 0 \<or> 60 < len then Overrun
      else
        (let p = \<lparr>pkt_proto = uint proto, pkt_hlen = 0, pkt_len = 4 + len,
                  pkt_data = [word_of_int code, word_of_int ident]
                             @ store_be16 (word_of_int (4 + len))
                             @ (if len \<noteq> 0 then bytes_at payload len else []),
                  pkt_hdr = []\<rparr>
         in Returns (0, v\<lparr>tcp_control_queue := queue_packet (tcp_control_queue v) p\<rparr>)))"

section \<open>Incoming Configure-Request (ppp.c, lines 228-323)\<close>

text \<open>
  \<open>PROTO_TAG_LEN(p, t, l)\<close> is \<open>(p << 16) | (t << 8) | l\<close> on C \<open>int\<close>s, modelled in
  32-bit two's complement: a length byte below 2 makes \<open>l - 2\<close> negative, which sets
  every high bit of the key.
\<close>

definition PROTO_TAG_LEN :: "int \<Rightarrow> int \<Rightarrow> int \<Rightarrow> u32" where
  "PROTO_TAG_LEN p t l = push_bit 16 (word_of_int p) OR push_bit 8 (word_of_int t) OR word_of_int l"

text \<open>
  The body of the TLV loop: the \<open>switch\<close> on the option at the cursor \<open>p\<close>. \<open>None\<close> is
  the jump to \<open>unknown\<close> (\<open>ret = -EINVAL; goto out\<close>); \<open>Some\<close> is a \<open>break\<close> out of the
  \<open>switch\<close> with the updated state.
\<close>

definition handle_option :: "openconnect_info \<Rightarrow> int \<Rightarrow> ptr \<Rightarrow> openconnect_info option" where
  "handle_option v proto p =
     (let t = p 0; l = p 1; key = PROTO_TAG_LEN proto (uint t) (uint l - 2) in
      if key = PROTO_TAG_LEN PPP_LCP 1 2 then
        Some (v\<lparr>mtu := load_be16 (ptr_add p 2)\<rparr>)
      else if key = PROTO_TAG_LEN PPP_LCP 2 4 then
        Some (v\<lparr>ppp := (ppp v)\<lparr>in_asyncmap := load_be32 (ptr_add p 2)\<rparr>\<rparr>)
      else if key = PROTO_TAG_LEN PPP_LCP 5 4 then
        Some (v\<lparr>ppp := (ppp v)\<lparr>in_lcp_magic := load_be32 (ptr_add p 2)\<rparr>\<rparr>)
      else if key = PROTO_TAG_LEN PPP_LCP 7 0 then
        Some (v\<lparr>ppp := (ppp v)\<lparr>in_lcp_opts := in_lcp_opts (ppp v) OR PFCOMP\<rparr>\<rparr>)
      else if key = PROTO_TAG_LEN PPP_LCP 8 0 then
        Some (v\<lparr>ppp := (ppp v)\<lparr>in_lcp_opts := in_lcp_opts (ppp v) OR ACCOMP\<rparr>\<rparr>)
      else if key = PROTO_TAG_LEN PPP_IPCP 2 2 then
        (if load_be16 (ptr_add p 2) = 0x002d then
           Some (v\<lparr>ppp := (ppp v)\<lparr>in_lcp_opts := in_lcp_opts (ppp v) OR VJCOMP\<rparr>\<rparr>)
         else None)
      else if key = PROTO_TAG_LEN PPP_IPCP 3 4 then
        Some (v\<lparr>ppp := (ppp v)\<lparr>in_peer_addr := load_be32 (ptr_add p 2)\<rparr>\<rparr>)
      else if key = PROTO_TAG_LEN PPP_IP6CP 1 8 then
        Some (v\<lparr>ppp := (ppp v)\<lparr>in_ipv6_int_ident := bytes_at (ptr_add p 2) 8\<rparr>\<rparr>)
      else None)"

text \<open>
  The \<open>for\<close> loop over the options, with the cursor \<open>p\<close> as an offset from
  \<open>payload\<close>. The loop is defined as a partial function: \<open>None\<close> would be a run that
  never leaves the loop. It ends with \<open>Inl\<close> at an unknown option (state as reached so
  far), or with \<open>Inr\<close> and the final cursor when the loop condition fails.
\<close>

partial_function (option) handle_config_request_loop ::
    "int \<Rightarrow> ptr \<Rightarrow> int \<Rightarrow> int \<Rightarrow> openconnect_info \<Rightarrow> (openconnect_info + int \<times> openconnect_info) option" where
  "handle_config_request_loop proto payload len p v =
     (if p + 1 < len \<and> p + uint (payload (p + 1)) \<le> len then
        (case handle_option v proto (ptr_add payload p) of
           None \<Rightarrow> Some (Inl v)
         | Some v' \<Rightarrow> handle_config_request_loop proto payload len (p + uint (payload (p + 1))) v')
      else Some (Inr (p, v)))"

declare handle_config_request_loop.simps [code]

text \<open>
  The pointer \<open>ncp\<close> that the code sets by a \<open>switch\<close> on the protocol, and
  \<open>ncp->state |= bits\<close> through it.
\<close>

datatype ncp_sel = Sel_lcp | Sel_ipcp | Sel_ip6cp

definition ncp_of_proto :: "int \<Rightarrow> ncp_sel option" where
  "ncp_of_proto proto =
     (if proto = PPP_LCP then Some Sel_lcp
      else if proto = PPP_IPCP then Some Sel_ipcp
      else if proto = PPP_IP6CP then Some Sel_ip6cp
      else None)"

fun ncp_state_or :: "ncp_sel \<Rightarrow> int \<Rightarrow> oc_ppp \<Rightarrow> oc_ppp" where
  "ncp_state_or Sel_lcp bits s = s\<lparr>lcp := (lcp s)\<lparr>state := state (lcp s) OR bits\<rparr>\<rparr>"
| "ncp_state_or Sel_ipcp bits s = s\<lparr>ipcp := (ipcp s)\<lparr>state := state (ipcp s) OR bits\<rparr>\<rparr>"
| "ncp_state_or Sel_ip6cp bits s = s\<lparr>ip6cp := (ip6cp s)\<lparr>state := state (ip6cp s) OR bits\<rparr>\<rparr>"

text \<open>
  \<open>handle_config_request\<close>: \<open>None\<close> is a run that never leaves the loop, \<open>Some Overrun\<close>
  the write past the packet of the Configure-Ack, \<open>Some (Returns (ret, v))\<close> a return.
\<close>

definition handle_config_request ::
    "openconnect_info \<Rightarrow> int \<Rightarrow> int \<Rightarrow> ptr \<Rightarrow> int \<Rightarrow> (int \<times> openconnect_info) outcome option" where
  "handle_config_request v proto ident payload len =
     (case ncp_of_proto proto of
        None \<Rightarrow> Some (Returns (- EINVAL, v))
      | Some ncp \<Rightarrow>
         (case handle_config_request_loop proto payload len 0 v of
            None \<Rightarrow> None
          | Some (Inl v1) \<Rightarrow> Some (Returns (- EINVAL, v1))
          | Some (Inr (p, v1)) \<Rightarrow>
              (let v2 = v1\<lparr>ppp := ncp_state_or ncp NCP_CONF_REQ_RECEIVED (ppp v1)\<rparr>
               in case queue_config_packet v2 (word_of_int proto) ident CONFACK len payload of
                    Overrun \<Rightarrow> Some Overrun
                  | Returns (ret, v3) \<Rightarrow>
                      if ret \<ge> 0
                      then Some (Returns (0, v3\<lparr>ppp := ncp_state_or ncp NCP_CONF_ACK_SENT (ppp v3)\<rparr>))
                      else Some (Returns (ret, v3)))))"

section \<open>Outgoing Configure-Request (ppp.c, lines 325-389)\<close>

text \<open>
  The \<open>switch\<close> of \<open>queue_config_request\<close>: the session fields it sets and the option
  bytes it appends to the buffer. \<open>None\<close> is the \<open>default\<close> branch.
\<close>

definition config_request_options ::
    "openconnect_info \<Rightarrow> int \<Rightarrow> (ncp_sel \<times> openconnect_info \<times> u8 list) option" where
  "config_request_options v proto =
     (if proto = PPP_LCP then
        (let s1 = (ppp v)\<lparr>out_asyncmap := 0\<rparr>;
             s2 = s1\<lparr>out_lcp_magic := NOT (in_lcp_magic s1)\<rparr>;
             s3 = s2\<lparr>out_lcp_opts := ACCOMP OR PFCOMP\<rparr>;
             v1 = v\<lparr>ppp := s3, mtu := (if mtu v = 0 then 1300 else mtu v)\<rparr>;
             b1 = buf_append_ppp_tlv_be16 [] 1 (word_of_int (mtu v1)) (hdlc s3) ASYNCMAP_LCP;
             b2 = buf_append_ppp_tlv_be32 b1 2 (out_asyncmap s3) (hdlc s3) ASYNCMAP_LCP;
             b3 = buf_append_ppp_tlv b2 5 (store_be32 (out_lcp_magic s3)) (hdlc s3) ASYNCMAP_LCP;
             b4 = (if out_lcp_opts s3 AND PFCOMP \<noteq> 0
                   then buf_append_ppp_tlv b3 7 [] (hdlc s3) ASYNCMAP_LCP else b3);
             b5 = (if out_lcp_opts s3 AND ACCOMP \<noteq> 0
                   then buf_append_ppp_tlv b4 8 [] (hdlc s3) ASYNCMAP_LCP else b4)
         in Some (Sel_lcp, v1, b5))
      else if proto = PPP_IPCP then
        (let s1 = (case addr v of None \<Rightarrow> ppp v | Some a \<Rightarrow> (ppp v)\<lparr>out_peer_addr := a\<rparr>);
             b1 = buf_append_ppp_tlv [] 3 (store_be32 (out_peer_addr s1)) (hdlc s1) (out_asyncmap s1)
         in Some (Sel_ipcp, v\<lparr>ppp := s1\<rparr>, b1))
      else if proto = PPP_IP6CP then
        (let ipv6a = (case addr6 v of None \<Rightarrow> replicate 16 0 | Some a \<Rightarrow> a);
             s1 = (ppp v)\<lparr>out_ipv6_int_ident := take 8 (drop 8 ipv6a)\<rparr>;
             b1 = buf_append_ppp_tlv [] 1 (out_ipv6_int_ident s1) (hdlc s1) (out_asyncmap s1)
         in Some (Sel_ip6cp, v\<lparr>ppp := s1\<rparr>, b1))
      else None)"

text \<open>
  When the buffer cannot be allocated every append is skipped and \<open>buf_error\<close> is
  \<open>-ENOMEM\<close>; the session fields are set all the same.
\<close>

definition queue_config_request ::
    "openconnect_info \<Rightarrow> int \<Rightarrow> int \<Rightarrow> (int \<times> openconnect_info) outcome" where
  "queue_config_request v proto ident =
     (case config_request_options v proto of
        None \<Rightarrow> Returns (- EINVAL, v)
      | Some (ncp, v1, buf) \<Rightarrow>
          (if \<not> malloc_ok v1 then Returns (- ENOMEM, v1)
           else
             (case queue_config_packet v1 (word_of_int proto) ident CONFREQ
                     (int (length buf)) (mem_of buf) of
                Overrun \<Rightarrow> Overrun
              | Returns (ret, v2) \<Rightarrow>
                  if ret \<ge> 0 then Returns (0, v2\<lparr>ppp := ncp_state_or ncp NCP_CONF_REQ_SENT (ppp v2)\<rparr>)
                  else Returns (ret, v2))))"

section \<open>Dispatch of a received control packet (ppp.c, lines 391-451)\<close>

text \<open>
  \<open>strndup\<close> copies at most \<open>n\<close> bytes and stops at a zero byte; it returns a null
  pointer when the allocation fails.
\<close>

definition strndup :: "bool \<Rightarrow> ptr \<Rightarrow> int \<Rightarrow> string option" where
  "strndup ok s n =
     (if ok then Some (map (\<lambda>b. char_of (unat b)) (takeWhile (\<lambda>b. b \<noteq> 0) (bytes_at s n)))
      else None)"

text \<open>The code after the label \<open>set_quit_reason\<close>.\<close>

definition set_quit_reason :: "openconnect_info \<Rightarrow> ptr \<Rightarrow> int \<Rightarrow> openconnect_info" where
  "set_quit_reason v p len =
     (let v1 = (if quit_reason v = None \<and> len > 4
                then v\<lparr>quit_reason := strndup (malloc_ok v) (ptr_add p 4) (len - 4)\<rparr> else v)
      in v1\<lparr>ppp := (ppp v1)\<lparr>ppp_state := PPPS_TERMINATE\<rparr>\<rparr>)"

text \<open>
  The first \<open>switch\<close> of \<open>handle_config_packet\<close>, on the code: it yields \<open>ret\<close>,
  \<open>add_state\<close> and the state. \<open>None\<close> only when the Configure-Request loop does not
  return.
\<close>

definition handle_config_code ::
    "openconnect_info \<Rightarrow> u16 \<Rightarrow> ptr \<Rightarrow> int \<Rightarrow> (int \<times> int \<times> openconnect_info) outcome option" where
  "handle_config_code v proto p len =
     (let code = uint (p 0); ident = uint (p 1) in
      if code = CONFREQ then
        (case handle_config_request v (uint proto) ident (ptr_add p 4) (len - 4) of
           None \<Rightarrow> None
         | Some Overrun \<Rightarrow> Some Overrun
         | Some (Returns (ret, v1)) \<Rightarrow> Some (Returns (ret, 0, v1)))
      else if code = CONFACK then Some (Returns (0, NCP_CONF_ACK_RECEIVED, v))
      else if code = ECHOREQ then
        (if ppp_state (ppp v) \<ge> PPPS_OPENED then
           (case queue_config_packet v proto ident ECHOREP 4
                   (mem_of (store_be32 (out_lcp_magic (ppp v)))) of
              Overrun \<Rightarrow> Some Overrun
            | Returns (ret, v1) \<Rightarrow> Some (Returns (ret, 0, v1)))
         else Some (Returns (0, 0, v)))
      else if code = TERMREQ then
        (let add_state = NCP_TERM_REQ_RECEIVED in
         case queue_config_packet v proto ident TERMACK 0 (mem_of []) of
           Overrun \<Rightarrow> Some Overrun
         | Returns (ret, v1) \<Rightarrow>
             (let add_state = (if ret \<ge> 0 then NCP_TERM_ACK_SENT else add_state)
              in Some (Returns (ret, add_state, set_quit_reason v1 p len))))
      else if code = TERMACK then
        Some (Returns (0, NCP_TERM_ACK_RECEIVED, set_quit_reason v p len))
      else if code = ECHOREP \<or> code = DISCREQ then Some (Returns (0, 0, v))
      else Some (Returns (- EINVAL, 0, v)))"

definition handle_config_packet ::
    "openconnect_info \<Rightarrow> u16 \<Rightarrow> ptr \<Rightarrow> int \<Rightarrow> (int \<times> openconnect_info) outcome option" where
  "handle_config_packet v proto p len =
     (case handle_config_code v proto p len of
        None \<Rightarrow> None
      | Some Overrun \<Rightarrow> Some Overrun
      | Some (Returns (ret, add_state, v1)) \<Rightarrow>
          (case ncp_of_proto (uint proto) of
             None \<Rightarrow> Some (Returns (- EINVAL, v1))
           | Some ncp \<Rightarrow> Some (Returns (ret, v1\<lparr>ppp := ncp_state_or ncp add_state (ppp v1)\<rparr>))))"

section \<open>The session state machine (ppp.c, lines 466-512)\<close>

text \<open>
  Modelled from the spec: \<open>ka_check_deadline\<close> is defined in another file of the
  repository. The spec describes it as the test of a retransmit deadline "which also
  folds the deadline into the supplied timeout pointer": it answers whether \<open>now\<close> has
  reached \<open>due\<close>, and otherwise lowers the timeout (milliseconds) to the time left.
\<close>

definition ka_check_deadline :: "int \<Rightarrow> int \<Rightarrow> int \<Rightarrow> bool \<times> int" where
  "ka_check_deadline timeout now due =
     (if now \<ge> due then (True, timeout)
      else (False, if timeout > (due - now) * 1000 then (due - now) * 1000 else timeout))"

text \<open>
  The \<open>switch\<close> on \<open>ppp_state\<close> falls through from one \<open>case\<close> to the next; each
  definition below is the code from one \<open>case\<close> label to the end of the \<open>switch\<close>.
  The result is the state and the timeout. The value that \<open>queue_config_request\<close>
  returns is ignored, as in the code.
\<close>

definition ppp_case_opened ::
    "openconnect_info \<Rightarrow> int \<Rightarrow> int \<Rightarrow> (openconnect_info \<times> int) outcome" where
  "ppp_case_opened v timeout now =
     (case (if want_ipv4 (ppp v) \<noteq> 0 \<and> state (ipcp (ppp v)) AND NCP_CONF_ACK_RECEIVED = 0 then
              (let (due, t) = ka_check_deadline timeout now (last_req (ipcp (ppp v)) + 3) in
               if due then
                 (case queue_config_request
                         (v\<lparr>ppp := (ppp v)\<lparr>ipcp := (ipcp (ppp v))\<lparr>last_req := now\<rparr>\<rparr>\<rparr>) PPP_IPCP 1 of
                    Overrun \<Rightarrow> Overrun
                  | Returns (ret, v') \<Rightarrow> Returns (v', t))
               else Returns (v, t))
            else Returns (v, timeout)) of
        Overrun \<Rightarrow> Overrun
      | Returns (v1, t1) \<Rightarrow>
         (case (if want_ipv6 (ppp v1) \<noteq> 0 \<and> state (ip6cp (ppp v1)) AND NCP_CONF_ACK_RECEIVED = 0 then
                  (let (due, t) = ka_check_deadline t1 now (last_req (ip6cp (ppp v1)) + 3) in
                   if due then
                     (case queue_config_request
                             (v1\<lparr>ppp := (ppp v1)\<lparr>ip6cp := (ip6cp (ppp v1))\<lparr>last_req := now\<rparr>\<rparr>\<rparr>)
                             PPP_IP6CP 1 of
                        Overrun \<Rightarrow> Overrun
                      | Returns (ret, v') \<Rightarrow> Returns (v', t))
                   else Returns (v1, t))
                else Returns (v1, t1)) of
            Overrun \<Rightarrow> Overrun
          | Returns (v2, t2) \<Rightarrow>
             (let s = ppp v2
              in if (want_ipv4 s = 0 \<or> (state (ipcp s) AND NCP_CONF_ACK_SENT \<noteq> 0
                                         \<and> state (ipcp s) AND NCP_CONF_ACK_RECEIVED \<noteq> 0))
                    \<and> (want_ipv6 s = 0 \<or> (state (ip6cp s) AND NCP_CONF_ACK_SENT \<noteq> 0
                                         \<and> state (ip6cp s) AND NCP_CONF_ACK_RECEIVED \<noteq> 0))
                 then Returns (v2\<lparr>ppp := s\<lparr>ppp_state := PPPS_NETWORK\<rparr>\<rparr>, t2)
                 else Returns (v2, t2))))"

definition ppp_case_establish ::
    "openconnect_info \<Rightarrow> int \<Rightarrow> int \<Rightarrow> (openconnect_info \<times> int) outcome" where
  "ppp_case_establish v timeout now =
     (if state (lcp (ppp v)) AND NCP_CONF_ACK_RECEIVED \<noteq> 0
         \<and> state (lcp (ppp v)) AND NCP_CONF_ACK_SENT \<noteq> 0 then
        ppp_case_opened (v\<lparr>ppp := (ppp v)\<lparr>ppp_state := PPPS_OPENED\<rparr>\<rparr>) timeout now
      else
        (let (due, t) = ka_check_deadline timeout now (last_req (lcp (ppp v)) + 3) in
         if due then
           (case queue_config_request
                   (v\<lparr>ppp := (ppp v)\<lparr>lcp := (lcp (ppp v))\<lparr>last_req := now\<rparr>\<rparr>\<rparr>) PPP_LCP 1 of
              Overrun \<Rightarrow> Overrun
            | Returns (ret, v') \<Rightarrow> Returns (v', t))
         else ppp_case_opened v t now))"

text \<open>
  \<open>Inl\<close> is a \<open>return\<close> from inside the \<open>switch\<close>, with the value returned; \<open>Inr\<close> is
  leaving the \<open>switch\<close> with the state and the timeout.
\<close>

definition ppp_state_transitions ::
    "openconnect_info \<Rightarrow> int \<Rightarrow> int
       \<Rightarrow> ((int \<times> openconnect_info) + (openconnect_info \<times> int)) outcome" where
  "ppp_state_transitions v timeout now =
     (let st = ppp_state (ppp v) in
      if st = PPPS_DEAD then
        map_outcome Inr
          (ppp_case_establish (v\<lparr>ppp := (ppp v)\<lparr>ppp_state := PPPS_ESTABLISH\<rparr>\<rparr>) timeout now)
      else if st = PPPS_ESTABLISH then map_outcome Inr (ppp_case_establish v timeout now)
      else if st = PPPS_OPENED then map_outcome Inr (ppp_case_opened v timeout now)
      else if st = PPPS_NETWORK then Returns (Inr (v, timeout))
      else if st = PPPS_TERMINATE then Returns (Inl (1, v))
      else Returns (Inl (1, v\<lparr>quit_reason := Some ''Unexpected state''\<rparr>)))"

section \<open>Receiving (ppp.c, lines 526-677)\<close>

text \<open>
  The protocol field of a received frame (lines 613-622): \<open>n\<close> is how far \<open>pp\<close> has
  moved past the address and control bytes; the result is the protocol and the header
  length \<open>pp - ph\<close>.
\<close>

definition ppp_proto_in :: "int \<Rightarrow> ptr \<Rightarrow> int \<Rightarrow> int \<times> int" where
  "ppp_proto_in opts pp n =
     (if opts AND PFCOMP \<noteq> 0 then
        (let proto = uint (pp n) in
         if proto AND 1 = 0 then (push_bit 8 proto + uint (pp (n + 1)), n + 2)
         else (proto, n + 1))
      else (load_be16 (ptr_add pp n), n + 2))"

text \<open>
  The check of the PPP header (lines 593-623) on the bytes at \<open>pp\<close>, under the incoming
  LCP options. \<open>None\<close> is the jump to \<open>bad_ppp_pkt\<close>. The first guard compares \<open>pp[0]\<close>
  with both \<open>0xff\<close> and \<open>0x03\<close>, and reads the protocol at \<open>pp + 6\<close>, as the code does.
\<close>

definition ppp_hdr_in :: "int \<Rightarrow> ptr \<Rightarrow> (int \<times> int) option" where
  "ppp_hdr_in opts pp =
     (if pp 0 = 0xff \<and> pp 0 = 0x03 \<and> load_be16 (ptr_add pp 6) = PPP_LCP then Some (PPP_LCP, 4)
      else if opts AND ACCOMP \<noteq> 0 then
        Some (ppp_proto_in opts pp (if pp 0 = 0xff \<and> pp 1 = 0x03 then 2 else 0))
      else if pp 0 \<noteq> 0xff \<or> pp 1 \<noteq> 0x03 then None
      else Some (ppp_proto_in opts pp 2))"

text \<open>
  What one pass through the body of the read loop ends with: the next iteration (with
  whether \<open>work_done\<close> was set), a \<open>break\<close>, a \<open>return\<close> of a value, the jump to
  \<open>do_reconnect\<close>, or a write past an allocation.
\<close>

datatype rx_result =
    Rx_next bool openconnect_info
  | Rx_break openconnect_info
  | Rx_return int openconnect_info
  | Rx_reconnect openconnect_info
  | Rx_overrun

text \<open>
  The \<open>switch\<close> on the protocol (lines 628-676): \<open>pp\<close> points at the payload,
  \<open>payload_len\<close> is its length and \<open>hdr\<close> the PPP header length \<open>pp - ph\<close>. The value
  that \<open>handle_config_packet\<close> returns is assigned to \<open>ret\<close> and never read.
\<close>

definition rx_dispatch :: "openconnect_info \<Rightarrow> int \<Rightarrow> ptr \<Rightarrow> int \<Rightarrow> int \<Rightarrow> rx_result option" where
  "rx_dispatch v proto pp payload_len hdr =
     (if proto = PPP_LCP \<or> proto = PPP_IPCP \<or> proto = PPP_IP6CP then
        (if payload_len < 4 \<or> load_be16 (ptr_add pp 2) \<noteq> payload_len then Some (Rx_return 1 v)
         else
           (case handle_config_packet v (word_of_int proto) pp payload_len of
              None \<Rightarrow> None
            | Some Overrun \<Rightarrow> Some Rx_overrun
            | Some (Returns (ret, v1)) \<Rightarrow> Some (Rx_next False v1)))
      else if proto = PPP_IP \<or> proto = PPP_IP6 then
        (if ppp_state (ppp v) \<noteq> PPPS_NETWORK then Some (Rx_next False v)
         else
           (let v1 = (if hdr \<noteq> exp_ppp_hdr_size (ppp v)
                      then v\<lparr>ppp := (ppp v)\<lparr>exp_ppp_hdr_size := hdr\<rparr>\<rparr> else v);
                p = \<lparr>pkt_proto = 0, pkt_hlen = 0, pkt_len = payload_len,
                     pkt_data = bytes_at pp payload_len, pkt_hdr = []\<rparr>
            in Some (Rx_next True
                 (v1\<lparr>incoming_queue := queue_packet (incoming_queue v1) p, cstp_pkt := False\<rparr>))))
      else Some (Rx_return 1 v))"

text \<open>
  The body of the read loop after \<open>ssl_nonblock_read\<close> has stored its bytes at \<open>ph\<close> and
  returned \<open>len\<close> (lines 549-676).
\<close>

definition rx_frame :: "openconnect_info \<Rightarrow> ptr \<Rightarrow> int \<Rightarrow> rx_result option" where
  "rx_frame v ph len =
     (if len = 0 then Some (Rx_break v)
      else if len < 0 then Some (Rx_reconnect v)
      else if len < 8 then Some (Rx_return 1 (v\<lparr>quit_reason := Some ''Short packet received''\<rparr>))
      else if encap (ppp v) = PPP_ENCAP_F5 then
        (let magic = load_be16 ph; payload_len = load_be16 (ptr_add ph 2) in
         if magic \<noteq> 0xf500 then Some (Rx_next False v)
         else if len \<noteq> 4 + payload_len then Some (Rx_next False v)
         else
           (let pp = ptr_add ph (encap_len (ppp v)) in
            case ppp_hdr_in (in_lcp_opts (ppp v)) pp of
              None \<Rightarrow> Some (Rx_return 1 v)
            | Some (proto, hdr) \<Rightarrow> rx_dispatch v proto (ptr_add pp hdr) (payload_len - hdr) hdr))
      else Some (Rx_return (- EINVAL) (v\<lparr>quit_reason := Some ''Invalid encapsulation''\<rparr>)))"

text \<open>
  The loop \<open>while (readable)\<close>: the transport is a list of read results, each the bytes
  stored and the value returned; once the list is used up the read returns 0. The result
  carries \<open>work_done\<close>. The size of the receive packet is not part of the state: a
  read is taken to fit the packet it is stored in.
\<close>

fun rx_loop :: "openconnect_info \<Rightarrow> int \<Rightarrow> (ptr \<times> int) list \<Rightarrow> (rx_result \<times> int) option" where
  "rx_loop v work_done [] =
     (if \<not> cstp_pkt v \<and> \<not> malloc_ok v then Some (Rx_break v, work_done)
      else Some (Rx_break (v\<lparr>cstp_pkt := True\<rparr>), work_done))"
| "rx_loop v work_done ((ph, len) # reads) =
     (if \<not> cstp_pkt v \<and> \<not> malloc_ok v then Some (Rx_break v, work_done)
      else
        (case rx_frame (v\<lparr>cstp_pkt := True\<rparr>) ph len of
           None \<Rightarrow> None
         | Some (Rx_next wd v1) \<Rightarrow> rx_loop v1 (if wd then 1 else work_done) reads
         | Some r \<Rightarrow> Some (r, work_done)))"

text \<open>
  \<open>ppp_mainloop\<close> from its entry to the end of the read loop (lines 463-677). The result
  \<open>Rx_break\<close> stands for reaching the sending half of the function.
\<close>

definition ppp_mainloop_in ::
    "openconnect_info \<Rightarrow> int \<Rightarrow> int \<Rightarrow> bool \<Rightarrow> (ptr \<times> int) list \<Rightarrow> (rx_result \<times> int) option" where
  "ppp_mainloop_in v timeout now readable reads =
     (if ssl_fd v = - 1 then Some (Rx_reconnect v, 0)
      else
        (case ppp_state_transitions v timeout now of
           Overrun \<Rightarrow> Some (Rx_overrun, 0)
         | Returns (Inl (r, v1)) \<Rightarrow> Some (Rx_return r v1, 0)
         | Returns (Inr (v1, t1)) \<Rightarrow>
             if readable then rx_loop v1 0 reads else Some (Rx_break v1, 0)))"

section \<open>Sending: the headers of an outgoing packet (ppp.c, lines 754-795)\<close>

text \<open>
  The packet to send and its protocol: the head of the control queue, else (without DTLS
  and in state NETWORK) the head of the outgoing queue.
\<close>

definition next_outgoing :: "openconnect_info \<Rightarrow> (pkt \<times> int \<times> openconnect_info) option" where
  "next_outgoing v =
     (case tcp_control_queue v of
        this # q \<Rightarrow> Some (this, pkt_proto this, v\<lparr>tcp_control_queue := q\<rparr>)
      | [] \<Rightarrow>
         (if \<not> dtls_connected v \<and> ppp_state (ppp v) = PPPS_NETWORK then
            (case outgoing_queue v of
               this # q \<Rightarrow>
                 Some (this,
                       (if pkt_len this \<noteq> 0 \<and> (mem_of (pkt_data this) 0) AND 0xf0 = 0x60
                        then PPP_IP6 else PPP_IP),
                       v\<lparr>outgoing_queue := q\<rparr>)
             | [] \<Rightarrow> None)
          else None))"

text \<open>
  The PPP header (lines 769-775). The code stores it backwards from \<open>data[-1]\<close>; the
  list is in the order of transmission.
\<close>

definition ppp_hdr_out :: "oc_ppp \<Rightarrow> int \<Rightarrow> u8 list" where
  "ppp_hdr_out s proto =
     (let h1 = [word_of_int (proto AND 0xff)];
          h2 = (if proto > 0xff \<or> out_lcp_opts s AND PFCOMP = 0
                then word_of_int (drop_bit 8 proto) # h1 else h1)
      in if proto = PPP_LCP \<or> out_lcp_opts s AND ACCOMP = 0 then [0xff, 0x03] @ h2 else h2)"

text \<open>The outer encapsulation in front of it (lines 776-784), for a payload of \<open>len\<close> bytes.\<close>

definition encap_hdr_out :: "oc_ppp \<Rightarrow> int \<Rightarrow> u8 list \<Rightarrow> u8 list" where
  "encap_hdr_out s len h =
     (if encap s = PPP_ENCAP_F5
      then store_be16 0xf500 @ store_be16 (word_of_int (len + int (length h))) @ h
      else h)"

definition prepare_outgoing :: "openconnect_info \<Rightarrow> (pkt \<times> openconnect_info) option" where
  "prepare_outgoing v =
     (case next_outgoing v of
        None \<Rightarrow> None
      | Some (this, proto, v1) \<Rightarrow>
          (let h = encap_hdr_out (ppp v1) (pkt_len this) (ppp_hdr_out (ppp v1) proto)
           in Some (this\<lparr>pkt_hdr := h, pkt_hlen := int (length h)\<rparr>, v1)))"

section \<open>The egress header as the specification words it\<close>

text \<open>
  The specification's rule for the PPP header of an outgoing frame, given whether
  protocol-field compression and address-and-control-field compression are in effect:
  the pair \<open>0xFF 0x03\<close> is omitted iff ACCOMP holds and the frame is not LCP; the
  protocol is one byte iff PFCOMP holds and the number fits in one byte and is odd, and
  two bytes big-endian otherwise; an LCP frame is never compressed.
\<close>

definition spec_ppp_hdr_out :: "bool \<Rightarrow> bool \<Rightarrow> int \<Rightarrow> u8 list" where
  "spec_ppp_hdr_out pfcomp accomp proto =
     (if accomp \<and> proto \<noteq> PPP_LCP then [] else [0xff, 0x03])
     @ (if proto \<noteq> PPP_LCP \<and> pfcomp \<and> proto \<le> 0xff \<and> odd proto then [word_of_int proto]
        else [word_of_int (drop_bit 8 proto), word_of_int proto])"

section \<open>A session at its start\<close>

text \<open>
  The state in which the caller first enters \<open>ppp_mainloop\<close>: a session from
  \<open>openconnect_ppp_new\<close>, no MTU or address configured, empty queues, an open transport.
  The scenarios below start from it.
\<close>

definition vpninfo_new :: "int \<Rightarrow> int \<Rightarrow> int \<Rightarrow> openconnect_info" where
  "vpninfo_new e w4 w6 =
     \<lparr>ppp = openconnect_ppp_new e w4 w6, mtu = 0, addr = None, addr6 = None,
      quit_reason = None, tcp_control_queue = [], incoming_queue = [], outgoing_queue = [],
      cstp_pkt = False, ssl_fd = 3, dtls_connected = False, malloc_ok = True\<rparr>"

section \<open>Auxiliary facts\<close>

lemma bytes_at_mem_of: "bytes_at (mem_of xs) (int (length xs)) = xs"
  by (rule nth_equalityI) (simp_all add: bytes_at_def mem_of_def)

lemma queue_config_packet_ok:
  "malloc_ok v \<Longrightarrow> length xs \<le> 60 \<Longrightarrow>
   queue_config_packet v proto ident code (int (length xs)) (mem_of xs) =
     Returns (0, v\<lparr>tcp_control_queue := tcp_control_queue v @
            [\<lparr>pkt_proto = uint proto, pkt_hlen = 0, pkt_len = 4 + int (length xs),
              pkt_data = [word_of_int code, word_of_int ident]
                         @ store_be16 (word_of_int (4 + int (length xs))) @ xs,
              pkt_hdr = []\<rparr>]\<rparr>)"
  by (simp add: queue_config_packet_def queue_packet_def bytes_at_mem_of)

lemma queue_config_packet_fits:
  "0 \<le> len \<Longrightarrow> len \<le> 60 \<Longrightarrow>
   \<exists>ret v'. queue_config_packet v proto ident code len payload = Returns (ret, v')"
  by (simp add: queue_config_packet_def Let_def)

text \<open>A length byte of 0 or 1 sets bit 4 of the \<open>switch\<close> key; no \<open>case\<close> label has that bit.\<close>

lemma PROTO_TAG_LEN_short: "uint (l :: u8) < 2 \<Longrightarrow> bit (PROTO_TAG_LEN proto t (uint l - 2)) 4"
proof -
  assume "uint l < 2"
  then have "uint l = 0 \<or> uint l = 1" using uint_ge_0[of l] by linarith
  then have "l = 0 \<or> l = 1" by (auto simp: word_uint_eq_iff)
  then show ?thesis
    by (auto simp: PROTO_TAG_LEN_def bit_or_iff)
qed

lemma PROTO_TAG_LEN_labels:
  "\<not> bit (PROTO_TAG_LEN PPP_LCP 1 2) 4" "\<not> bit (PROTO_TAG_LEN PPP_LCP 2 4) 4"
  "\<not> bit (PROTO_TAG_LEN PPP_LCP 5 4) 4" "\<not> bit (PROTO_TAG_LEN PPP_LCP 7 0) 4"
  "\<not> bit (PROTO_TAG_LEN PPP_LCP 8 0) 4" "\<not> bit (PROTO_TAG_LEN PPP_IPCP 2 2) 4"
  "\<not> bit (PROTO_TAG_LEN PPP_IPCP 3 4) 4" "\<not> bit (PROTO_TAG_LEN PPP_IP6CP 1 8) 4"
  by (simp_all add: PROTO_TAG_LEN_def PPP_LCP_def PPP_IPCP_def PPP_IP6CP_def bit_or_iff bit_push_bit_iff)

lemma handle_option_short:
  assumes "uint (q 1) < 2"
  shows "handle_option v proto q = None"
proof -
  have b: "bit (PROTO_TAG_LEN proto (uint (q 0)) (uint (q 1) - 2)) 4"
    using assms by (rule PROTO_TAG_LEN_short)
  show ?thesis
    using b PROTO_TAG_LEN_labels unfolding handle_option_def Let_def
    by (auto split: if_splits)
qed

lemma handle_option_Some_len:
  assumes "handle_option v proto q = Some v'"
  shows "2 \<le> uint (q 1)"
proof (rule ccontr)
  assume "\<not> 2 \<le> uint (q 1)"
  then have "handle_option v proto q = None" by (simp add: handle_option_short)
  with assms show False by simp
qed

text \<open>The TLV loop returns from every cursor: the bytes left, \<open>len - p\<close>, shrink in each round.\<close>

lemma handle_config_request_loop_returns:
  "\<exists>r. handle_config_request_loop proto payload len p v = Some r"
proof (induction "nat (len - p)" arbitrary: p v rule: less_induct)
  case less
  show ?case
  proof (cases "p + 1 < len \<and> p + uint (payload (p + 1)) \<le> len")
    case False
    show ?thesis by (subst handle_config_request_loop.simps) (simp add: False)
  next
    case True
    show ?thesis
    proof (cases "handle_option v proto (ptr_add payload p)")
      case None
      show ?thesis by (subst handle_config_request_loop.simps) (simp add: True None)
    next
      case (Some v')
      from handle_option_Some_len[OF Some] have "2 \<le> uint (payload (p + 1))"
        by (simp add: ptr_add_def)
      with True have "nat (len - (p + uint (payload (p + 1)))) < nat (len - p)" by linarith
      from less[OF this] obtain r where
        "handle_config_request_loop proto payload len (p + uint (payload (p + 1))) v' = Some r" by blast
      then show ?thesis by (subst handle_config_request_loop.simps) (simp add: True Some)
    qed
  qed
qed

lemma handle_config_request_returns:
  "\<exists>r. handle_config_request v proto ident payload len = Some r"
proof (cases "ncp_of_proto proto")
  case None
  then show ?thesis by (simp add: handle_config_request_def)
next
  case (Some ncp)
  obtain r where r: "handle_config_request_loop proto payload len 0 v = Some r"
    using handle_config_request_loop_returns by blast
  show ?thesis
    by (cases r)
       (auto simp: handle_config_request_def Some r Let_def split: prod.splits outcome.splits)
qed

lemma handle_config_request_fits:
  assumes "0 \<le> len" "len \<le> 60"
  shows "\<exists>ret v'. handle_config_request v proto ident payload len = Some (Returns (ret, v'))"
proof (cases "ncp_of_proto proto")
  case None
  then show ?thesis by (simp add: handle_config_request_def)
next
  case (Some ncp)
  obtain r where r: "handle_config_request_loop proto payload len 0 v = Some r"
    using handle_config_request_loop_returns by blast
  show ?thesis
  proof (cases r)
    case (Inl v1)
    then show ?thesis by (simp add: handle_config_request_def Some r)
  next
    case (Inr pv)
    obtain p v1 where pv: "pv = (p, v1)" by (cases pv)
    obtain ret v3 where q: "queue_config_packet
        (v1\<lparr>ppp := ncp_state_or ncp NCP_CONF_REQ_RECEIVED (ppp v1)\<rparr>)
        (word_of_int proto) ident CONFACK len payload = Returns (ret, v3)"
      using queue_config_packet_fits[OF assms] by blast
    show ?thesis
      by (simp add: handle_config_request_def Some r Inr pv Let_def q)
  qed
qed

text \<open>Reading a scenario: a call that reaches the sending half, and the state it leaves.\<close>

lemma case_Rx_break:
  "(case r of Some (Rx_break v, w) \<Rightarrow> P v | _ \<Rightarrow> False) \<Longrightarrow> \<exists>v w. r = Some (Rx_break v, w) \<and> P v"
  by (auto split: option.splits prod.splits rx_result.splits)

lemma case_Returns:
  "(case r of Returns (a, v) \<Rightarrow> P a v | Overrun \<Rightarrow> False) \<Longrightarrow> \<exists>a v. r = Returns (a, v) \<and> P a v"
  by (auto split: outcome.splits prod.splits)


section \<open>The claims\<close>

subsection \<open>C10: the Configure-Request parser terminates\<close>

text \<open>
  Claim C10. \<open>handle_config_request\<close> comes to an end on every option payload: the
  model's \<open>None\<close>, a run that never leaves the TLV loop, does not occur for any
  protocol, payload, length or state. The end is a return whenever the payload has at
  most 60 bytes; for a longer payload whose options are all accepted the end is the
  copy of the payload into the 64-byte packet of the Configure-Ack, which runs past
  that packet (\<open>Overrun\<close>). An option whose length byte is 0 or 1 cannot stall the
  loop: at such an option the \<open>switch\<close> finds no matching label and the loop is left at
  once through \<open>unknown\<close> (the \<open>Inl\<close> result, returned as \<open>-EINVAL\<close>), so the cursor
  is only ever advanced by a length of at least 2.
\<close>

theorem handle_config_request_terminates:
  "(\<exists>out. handle_config_request v proto ident payload len = Some out)
   \<and> (0 \<le> len \<and> len \<le> 60 \<longrightarrow>
        (\<exists>ret v'. handle_config_request v proto ident payload len = Some (Returns (ret, v'))))
   \<and> (\<forall>p. p + 1 < len \<and> p + uint (payload (p + 1)) \<le> len \<and> uint (payload (p + 1)) < 2
          \<longrightarrow> handle_config_request_loop proto payload len p v = Some (Inl v))
   \<and> (\<forall>q v'. handle_option v proto q = Some v' \<longrightarrow> 2 \<le> uint (q 1))"
proof (intro conjI allI impI)
  show "\<exists>out. handle_config_request v proto ident payload len = Some out"
    by (rule handle_config_request_returns)
next
  assume "0 \<le> len \<and> len \<le> 60"
  then show "\<exists>ret v'. handle_config_request v proto ident payload len = Some (Returns (ret, v'))"
    by (simp add: handle_config_request_fits)
next
  fix p
  assume a: "p + 1 < len \<and> p + uint (payload (p + 1)) \<le> len \<and> uint (payload (p + 1)) < 2"
  then have "handle_option v proto (ptr_add payload p) = None"
    by (simp add: handle_option_short ptr_add_def)
  then show "handle_config_request_loop proto payload len p v = Some (Inl v)"
    using a by (subst handle_config_request_loop.simps) simp
next
  fix q v'
  assume "handle_option v proto q = Some v'"
  then show "2 \<le> uint (q 1)" by (rule handle_option_Some_len)
qed

text \<open>
  An LCP Configure-Request whose only option is \<open>05 00\<close> (length byte 0): the loop is
  left at that option and the request is refused with \<open>-EINVAL\<close>, nothing queued. A
  payload of 30 options \<open>07 02\<close> (60 bytes) is acknowledged; one of 31 such options
  (62 bytes) passes the loop and overruns the packet of the Configure-Ack.
\<close>

theorem handle_config_request_terminates_witness:
  "(0::int) + 1 < 2 \<and> 0 + uint (mem_of [5, 0] (0 + 1)) \<le> 2 \<and> uint (mem_of [5, 0] (0 + 1)) < 2
   \<and> (0::int) \<le> 2 \<and> (2::int) \<le> 60
   \<and> handle_config_request_loop PPP_LCP (mem_of [5, 0]) 2 0 (vpninfo_new PPP_ENCAP_F5 1 0)
       = Some (Inl (vpninfo_new PPP_ENCAP_F5 1 0))
   \<and> handle_config_request (vpninfo_new PPP_ENCAP_F5 1 0) PPP_LCP 1 (mem_of [5, 0]) 2
       = Some (Returns (- EINVAL, vpninfo_new PPP_ENCAP_F5 1 0))
   \<and> (case handle_config_request (vpninfo_new PPP_ENCAP_F5 1 0) PPP_LCP 1
              (mem_of (concat (replicate 30 [7, 2]))) 60 of
         Some (Returns (ret, v')) \<Rightarrow> ret = 0 \<and> length (tcp_control_queue v') = 1
       | _ \<Rightarrow> False)
   \<and> handle_config_request (vpninfo_new PPP_ENCAP_F5 1 0) PPP_LCP 1
        (mem_of (concat (replicate 31 [7, 2]))) 62 = Some Overrun"
proof -
  have a: "(0::int) + 1 < 2 \<and> 0 + uint (mem_of [5, 0] (0 + 1)) \<le> 2 \<and> uint (mem_of [5, 0] (0 + 1)) < 2"
    by (simp add: mem_of_def)
  note t = handle_config_request_terminates[of "vpninfo_new PPP_ENCAP_F5 1 0" PPP_LCP 1 "mem_of [5, 0]" 2]
  from t have l: "handle_config_request_loop PPP_LCP (mem_of [5, 0]) 2 0 (vpninfo_new PPP_ENCAP_F5 1 0)
       = Some (Inl (vpninfo_new PPP_ENCAP_F5 1 0))"
    using a by blast
  from t have "\<exists>ret v'. handle_config_request (vpninfo_new PPP_ENCAP_F5 1 0) PPP_LCP 1 (mem_of [5, 0]) 2
       = Some (Returns (ret, v'))"
    by simp
  moreover have "handle_config_request (vpninfo_new PPP_ENCAP_F5 1 0) PPP_LCP 1 (mem_of [5, 0]) 2
       = Some (Returns (- EINVAL, vpninfo_new PPP_ENCAP_F5 1 0))"
    by (simp add: handle_config_request_def l ncp_of_proto_def)
  ultimately have r: "handle_config_request (vpninfo_new PPP_ENCAP_F5 1 0) PPP_LCP 1 (mem_of [5, 0]) 2
       = Some (Returns (- EINVAL, vpninfo_new PPP_ENCAP_F5 1 0))"
    by simp
  have f: "(case handle_config_request (vpninfo_new PPP_ENCAP_F5 1 0) PPP_LCP 1
              (mem_of (concat (replicate 30 [7, 2]))) 60 of
         Some (Returns (ret, v')) \<Rightarrow> ret = 0 \<and> length (tcp_control_queue v') = 1
       | _ \<Rightarrow> False)"
    by code_simp
  have o: "handle_config_request (vpninfo_new PPP_ENCAP_F5 1 0) PPP_LCP 1
        (mem_of (concat (replicate 31 [7, 2]))) 62 = Some Overrun"
    by code_simp
  from a l r f o show ?thesis by simp
qed

subsection \<open>C1: HDLC byte stuffing\<close>

lemma buf_append_ppphdlc_loop_plain:
  "(\<And>j. i \<le> j \<Longrightarrow> j < length bytes \<Longrightarrow> \<not> NEED_ESCAPE (bytes ! j) asyncmap)
   \<Longrightarrow> buf_append_ppphdlc_loop bytes asyncmap i s buf = buf"
proof (induction bytes asyncmap i s buf rule: buf_append_ppphdlc_loop.induct)
  case (1 bytes asyncmap i s buf)
  show ?case
  proof (cases "i < length bytes")
    case False
    then show ?thesis by (subst buf_append_ppphdlc_loop.simps) simp
  next
    case True
    then have ne: "\<not> NEED_ESCAPE (bytes ! i) asyncmap" using "1.prems"[of i] by simp
    have "buf_append_ppphdlc_loop bytes asyncmap (i + 1) s buf = buf"
      using "1.IH"(2)[OF True ne] "1.prems" by simp
    then show ?thesis using True ne by (subst buf_append_ppphdlc_loop.simps) simp
  qed
qed

text \<open>
  Claim C1 says that \<open>buf_append_ppphdlc\<close> outputs its input with exactly the escapable
  bytes (below \<open>0x20\<close> with their asyncmap bit set, \<open>0x7d\<close>, \<open>0x7e\<close>) replaced by
  \<open>0x7d, c XOR 0x20\<close>, every other byte passing through. The code does not do that.
  Plain bytes are appended only when an escaped byte follows them, so bytes after the
  last escaped byte are never appended: the theorem shows that for every input in
  which the code finds nothing to escape, the buffer is returned as it was, where the
  claim has the whole input appended. Two more defects show on the inputs of the
  evaluation that follows: the run of plain bytes before an escaped byte is appended
  one byte short (\<open>41 42 7e\<close> gives \<open>41 7d 5e\<close>, and \<open>41 7e 42\<close> gives \<open>7d 5e\<close>); and
  the macro tests \<open>map && (1UL << c)\<close>, so with asyncmap 1 (only bit 0 set) the byte
  \<open>01\<close> is escaped although its bit is clear.
\<close>

theorem buf_append_ppphdlc_loses_bytes:
  "(\<forall>j < length bytes. \<not> NEED_ESCAPE (bytes ! j) asyncmap)
     \<longrightarrow> buf_append_ppphdlc buf bytes asyncmap = buf"
  by (simp add: buf_append_ppphdlc_def buf_append_ppphdlc_loop_plain)

text \<open>The code and the specification's rule on four inputs, the buffer empty at the start.\<close>

theorem buf_append_ppphdlc_loses_bytes_witness:
  "\<not> NEED_ESCAPE 0x41 0
   \<and> buf_append_ppphdlc [] [0x41] 0 = [] \<and> spec_hdlc_escape [0x41] 0 = [0x41]
   \<and> buf_append_ppphdlc [] [0x41, 0x7e, 0x42] 0 = [0x7d, 0x5e]
   \<and> spec_hdlc_escape [0x41, 0x7e, 0x42] 0 = [0x41, 0x7d, 0x5e, 0x42]
   \<and> buf_append_ppphdlc [] [0x41, 0x42, 0x7e] 0 = [0x41, 0x7d, 0x5e]
   \<and> spec_hdlc_escape [0x41, 0x42, 0x7e] 0 = [0x41, 0x42, 0x7d, 0x5e]
   \<and> buf_append_ppphdlc [] [0x01] 1 = [0x7d, 0x21] \<and> spec_hdlc_escape [0x01] 1 = [0x01]"
proof -
  have n: "\<not> NEED_ESCAPE 0x41 0" by (simp add: NEED_ESCAPE_def)
  then have "\<forall>j < length [0x41 :: u8]. \<not> NEED_ESCAPE ([0x41] ! j) 0" by simp
  with buf_append_ppphdlc_loses_bytes[of "[0x41]" 0 "[]"]
  have a: "buf_append_ppphdlc [] [0x41] 0 = []" by blast
  have b: "buf_append_ppphdlc [] [0x41, 0x7e, 0x42] 0 = [0x7d, 0x5e]
     \<and> buf_append_ppphdlc [] [0x41, 0x42, 0x7e] 0 = [0x41, 0x7d, 0x5e]
     \<and> buf_append_ppphdlc [] [0x01] 1 = [0x7d, 0x21]"
    by code_simp
  have c: "spec_hdlc_escape [0x41] 0 = [0x41]
     \<and> spec_hdlc_escape [0x41, 0x7e, 0x42] 0 = [0x41, 0x7d, 0x5e, 0x42]
     \<and> spec_hdlc_escape [0x41, 0x42, 0x7e] 0 = [0x41, 0x42, 0x7d, 0x5e]
     \<and> spec_hdlc_escape [0x01] 1 = [0x01]"
    by (simp add: spec_need_escape_def)
  from n a b c show ?thesis by blast
qed

subsection \<open>C2: a full LCP header on ingress\<close>

lemma ppp_hdr_in_lcp:
  assumes "pp 0 = 0xff" "pp 1 = 0x03" "pp 2 = 0xc0" "pp 3 = 0x21"
  shows "ppp_hdr_in opts pp = Some (PPP_LCP, 4)"
  using assms
  by (simp add: ppp_hdr_in_def ppp_proto_in_def load_be16_def ptr_add_def PPP_LCP_def)

text \<open>
  Claim C2. When the bytes after the outer encapsulation are \<open>FF 03 C0 21\<close>, the header
  check yields protocol LCP and a header of exactly 4 bytes, whatever the incoming LCP
  options \<open>opts\<close> are; and a frame that passed the F5 checks is then handed to the
  protocol \<open>switch\<close> with protocol LCP, its payload starting 4 bytes after the
  encapsulation. (The code's first guard can never hold, since it compares \<open>pp[0]\<close> with
  two different values; the general branch reaches the same result for these bytes,
  with or without ACCOMP and PFCOMP.)
\<close>

theorem ppp_hdr_in_full_lcp:
  assumes "pp 0 = 0xff" "pp 1 = 0x03" "pp 2 = 0xc0" "pp 3 = 0x21"
  shows "ppp_hdr_in opts pp = Some (PPP_LCP, 4)
    \<and> (\<forall>(v::openconnect_info) ph len.
          encap (ppp v) = PPP_ENCAP_F5 \<and> 8 \<le> len \<and> load_be16 ph = 0xf500
          \<and> len = 4 + load_be16 (ptr_add ph 2) \<and> ptr_add ph (encap_len (ppp v)) = pp
        \<longrightarrow> rx_frame v ph len
             = rx_dispatch v PPP_LCP (ptr_add pp 4) (load_be16 (ptr_add ph 2) - 4) 4)"
proof (intro conjI allI impI)
  show "ppp_hdr_in opts pp = Some (PPP_LCP, 4)" using assms by (rule ppp_hdr_in_lcp)
next
  fix v :: openconnect_info and ph len
  assume a: "encap (ppp v) = PPP_ENCAP_F5 \<and> 8 \<le> len \<and> load_be16 ph = 0xf500
          \<and> len = 4 + load_be16 (ptr_add ph 2) \<and> ptr_add ph (encap_len (ppp v)) = pp"
  then show "rx_frame v ph len = rx_dispatch v PPP_LCP (ptr_add pp 4) (load_be16 (ptr_add ph 2) - 4) 4"
    using ppp_hdr_in_lcp[OF assms, of "in_lcp_opts (ppp v)"]
    by (simp add: rx_frame_def Let_def)
qed

text \<open>
  The frame \<open>F5 00 00 08 FF 03 C0 21 09 01 00 04\<close> (an LCP Echo-Request) received by a
  new session whose incoming options are ACCOMP and PFCOMP.
\<close>

theorem ppp_hdr_in_full_lcp_witness:
  "(let ph = mem_of [0xf5, 0, 0, 8, 0xff, 0x03, 0xc0, 0x21, 9, 1, 0, 4];
        pp = ptr_add ph 4;
        v = (vpninfo_new PPP_ENCAP_F5 1 0)\<lparr>ppp := (openconnect_ppp_new PPP_ENCAP_F5 1 0)\<lparr>in_lcp_opts := 3\<rparr>\<rparr>
    in pp 0 = 0xff \<and> pp 1 = 0x03 \<and> pp 2 = 0xc0 \<and> pp 3 = 0x21
       \<and> ppp_hdr_in (in_lcp_opts (ppp v)) pp = Some (PPP_LCP, 4)
       \<and> encap (ppp v) = PPP_ENCAP_F5 \<and> (8::int) \<le> 12 \<and> load_be16 ph = 0xf500
       \<and> 12 = 4 + load_be16 (ptr_add ph 2) \<and> ptr_add ph (encap_len (ppp v)) = pp
       \<and> rx_frame v ph 12 = rx_dispatch v PPP_LCP (ptr_add pp 4) 4 4
       \<and> rx_frame v ph 12 = Some (Rx_next False v))"
proof -
  define ph where "ph = mem_of [0xf5, 0, 0, 8, 0xff, 0x03, 0xc0, 0x21, 9, 1, 0, 4]"
  define v where "v = (vpninfo_new PPP_ENCAP_F5 1 0)\<lparr>ppp := (openconnect_ppp_new PPP_ENCAP_F5 1 0)\<lparr>in_lcp_opts := 3\<rparr>\<rparr>"
  have b: "ptr_add ph 4 0 = 0xff" "ptr_add ph 4 1 = 0x03" "ptr_add ph 4 2 = 0xc0" "ptr_add ph 4 3 = 0x21"
    by (simp_all add: ph_def ptr_add_def mem_of_def)
  have c: "encap (ppp v) = PPP_ENCAP_F5 \<and> (8::int) \<le> 12 \<and> load_be16 ph = 0xf500
       \<and> 12 = 4 + load_be16 (ptr_add ph 2) \<and> ptr_add ph (encap_len (ppp v)) = ptr_add ph 4"
    by (simp add: v_def ph_def vpninfo_new_def openconnect_ppp_new_def load_be16_def ptr_add_def mem_of_def)
  note t = ppp_hdr_in_full_lcp[OF b, of "in_lcp_opts (ppp v)"]
  from t have h: "ppp_hdr_in (in_lcp_opts (ppp v)) (ptr_add ph 4) = Some (PPP_LCP, 4)" by blast
  from t c have r: "rx_frame v ph 12
      = rx_dispatch v PPP_LCP (ptr_add (ptr_add ph 4) 4) (load_be16 (ptr_add ph 2) - 4) 4"
    by blast
  have l: "load_be16 (ptr_add ph 2) = 8" using c by simp
  have d: "rx_dispatch v PPP_LCP (ptr_add (ptr_add ph 4) 4) 4 4 = Some (Rx_next False v)"
    by (simp add: rx_dispatch_def handle_config_packet_def handle_config_code_def Let_def
        ph_def ptr_add_def mem_of_def load_be16_def v_def vpninfo_new_def openconnect_ppp_new_def
        PPP_LCP_def CONFREQ_def CONFACK_def ECHOREQ_def PPPS_OPENED_def ncp_of_proto_def ncp_zero_def)
  show ?thesis
    unfolding Let_def ph_def[symmetric] v_def[symmetric]
    using b h c r d l by simp
qed

subsection \<open>C3: a frame without \<open>FF 03\<close> when ACCOMP is not in effect\<close>

text \<open>
  Claim C3 says that such a frame makes \<open>ppp_mainloop\<close> return 1 with \<open>quit_reason\<close>
  naming a bad PPP packet, the frame not being queued. The code returns 1 and queues
  nothing, but the path through \<open>bad_ppp_pkt\<close> only logs: it returns with the state it
  was entered with, so \<open>quit_reason\<close> is left as it was (the neighbouring exits for a
  short packet and for an invalid encapsulation do set it). The theorem states what the
  code does for every such frame: the loop body returns 1 with the state unchanged, and
  so does the read loop (only the receive packet has been allocated).
\<close>

theorem rx_frame_bad_ppp_pkt:
  assumes "encap (ppp v) = PPP_ENCAP_F5" "8 \<le> len" "load_be16 ph = 0xf500"
      "len = 4 + load_be16 (ptr_add ph 2)"
      "in_lcp_opts (ppp v) AND ACCOMP = 0"
      "ph (encap_len (ppp v)) \<noteq> 0xff \<or> ph (encap_len (ppp v) + 1) \<noteq> 0x03"
  shows "rx_frame v ph len = Some (Rx_return 1 v)
     \<and> (cstp_pkt v \<or> malloc_ok v \<longrightarrow>
          rx_loop v work_done ((ph, len) # reads) = Some (Rx_return 1 (v\<lparr>cstp_pkt := True\<rparr>), work_done))"
proof -
  have "\<And>u. encap (ppp u) = encap (ppp v) \<Longrightarrow> encap_len (ppp u) = encap_len (ppp v)
        \<Longrightarrow> in_lcp_opts (ppp u) = in_lcp_opts (ppp v) \<Longrightarrow> rx_frame u ph len = Some (Rx_return 1 u)"
    using assms by (auto simp add: rx_frame_def Let_def ppp_hdr_in_def ptr_add_def)
  then show ?thesis by auto
qed

text \<open>
  A new session (no ACCOMP received) reads \<open>F5 00 00 04 00 21 45 00\<close>: the call of
  \<open>ppp_mainloop\<close> returns 1, and \<open>quit_reason\<close> is still unset.
\<close>

theorem rx_frame_bad_ppp_pkt_witness:
  "(let v = vpninfo_new PPP_ENCAP_F5 1 0;
        ph = mem_of [0xf5, 0, 0, 4, 0x00, 0x21, 0x45, 0x00]
    in encap (ppp v) = PPP_ENCAP_F5 \<and> (8::int) \<le> 8 \<and> load_be16 ph = 0xf500
       \<and> 8 = 4 + load_be16 (ptr_add ph 2) \<and> in_lcp_opts (ppp v) AND ACCOMP = 0
       \<and> ph (encap_len (ppp v)) \<noteq> 0xff
       \<and> rx_frame v ph 8 = Some (Rx_return 1 v) \<and> quit_reason v = None
       \<and> (case ppp_mainloop_in v 1000 100 True [(ph, 8)] of
            Some (Rx_return r v', _) \<Rightarrow> r = 1 \<and> quit_reason v' = None \<and> incoming_queue v' = []
          | _ \<Rightarrow> False))"
proof -
  define v where "v = vpninfo_new PPP_ENCAP_F5 1 0"
  define ph where "ph = mem_of [0xf5, 0, 0, 4, 0x00, 0x21, 0x45, 0x00]"
  have a: "encap (ppp v) = PPP_ENCAP_F5" "(8::int) \<le> 8" "load_be16 ph = 0xf500"
       "8 = 4 + load_be16 (ptr_add ph 2)" "in_lcp_opts (ppp v) AND ACCOMP = 0"
    by (simp_all add: v_def ph_def vpninfo_new_def openconnect_ppp_new_def load_be16_def ptr_add_def mem_of_def)
  have b: "ph (encap_len (ppp v)) \<noteq> 0xff"
    by (simp add: v_def ph_def vpninfo_new_def openconnect_ppp_new_def mem_of_def)
  then have b': "ph (encap_len (ppp v)) \<noteq> 0xff \<or> ph (encap_len (ppp v) + 1) \<noteq> 0x03" by simp
  from rx_frame_bad_ppp_pkt[OF a b'] have t: "rx_frame v ph 8 = Some (Rx_return 1 v)" by blast
  have q: "quit_reason v = None" by (simp add: v_def vpninfo_new_def)
  have m: "(case ppp_mainloop_in v 1000 100 True [(ph, 8)] of
            Some (Rx_return r v', _) \<Rightarrow> r = 1 \<and> quit_reason v' = None \<and> incoming_queue v' = []
          | _ \<Rightarrow> False)"
    unfolding v_def ph_def by code_simp
  show ?thesis
    unfolding Let_def v_def[symmetric] ph_def[symmetric]
    using a b t q m by simp
qed

subsection \<open>C4: a bad F5 outer header\<close>

text \<open>
  Claim C4 says that every buffer received under F5 encapsulation whose magic is not
  \<open>0xF500\<close>, or whose length disagrees with the announced payload length, is discarded
  without ending the session. The code first refuses every read of fewer than 8 bytes:
  the 5 bytes \<open>00 00 00 01 00\<close> have a bad magic, yet the loop body returns 1 with
  \<open>quit_reason\<close> "Short packet received".
\<close>

theorem rx_frame_short_packet_counterexample:
  "(let v = vpninfo_new PPP_ENCAP_F5 1 0; ph = mem_of [0, 0, 0, 1, 0]
    in encap (ppp v) = PPP_ENCAP_F5 \<and> load_be16 ph \<noteq> 0xf500
       \<and> rx_frame v ph 5 = Some (Rx_return 1 (v\<lparr>quit_reason := Some ''Short packet received''\<rparr>))
       \<and> rx_frame v ph 5 \<noteq> Some (Rx_next False v))"
  by (simp add: Let_def vpninfo_new_def openconnect_ppp_new_def load_be16_def mem_of_def
      rx_frame_def PPP_ENCAP_F5_def)

text \<open>
  Claim C4 as amended: for every buffer of at least 8 bytes received under F5
  encapsulation, if the first two bytes are not \<open>0xF500\<close> or the bytes read are not 4
  plus the announced payload length, the loop body goes to the next iteration with
  the whole state unchanged (session state, NCP states, queues and \<open>quit_reason\<close>), and
  the read loop carries on with the remaining reads.
\<close>

theorem rx_frame_discards_bad_encap:
  assumes "encap (ppp v) = PPP_ENCAP_F5" "8 \<le> len"
      "load_be16 ph \<noteq> 0xf500 \<or> len \<noteq> 4 + load_be16 (ptr_add ph 2)"
  shows "rx_frame v ph len = Some (Rx_next False v)
     \<and> (cstp_pkt v \<or> malloc_ok v \<longrightarrow>
          rx_loop v work_done ((ph, len) # reads) = rx_loop (v\<lparr>cstp_pkt := True\<rparr>) work_done reads)"
proof -
  have "\<And>u. encap (ppp u) = encap (ppp v) \<Longrightarrow> rx_frame u ph len = Some (Rx_next False u)"
    using assms by (auto simp add: rx_frame_def Let_def)
  then show ?thesis by auto
qed

text \<open>
  A new session reads \<open>F5 00 00 09 FF 03 C0 21\<close>, 8 bytes that announce a payload of 9:
  the buffer is dropped and the session is as before.
\<close>

theorem rx_frame_discards_bad_encap_witness:
  "(let v = vpninfo_new PPP_ENCAP_F5 1 0;
        ph = mem_of [0xf5, 0, 0, 9, 0xff, 0x03, 0xc0, 0x21]
    in encap (ppp v) = PPP_ENCAP_F5 \<and> (8::int) \<le> 8 \<and> 8 \<noteq> 4 + load_be16 (ptr_add ph 2)
       \<and> malloc_ok v
       \<and> rx_frame v ph 8 = Some (Rx_next False v)
       \<and> rx_loop v 0 [(ph, 8)] = Some (Rx_break (v\<lparr>cstp_pkt := True\<rparr>), 0))"
proof -
  define v where "v = vpninfo_new PPP_ENCAP_F5 1 0"
  define ph where "ph = mem_of [0xf5, 0, 0, 9, 0xff, 0x03, 0xc0, 0x21]"
  have a: "encap (ppp v) = PPP_ENCAP_F5" "(8::int) \<le> 8"
    by (simp_all add: v_def vpninfo_new_def openconnect_ppp_new_def)
  have b: "8 \<noteq> 4 + load_be16 (ptr_add ph 2)"
    by (simp add: ph_def load_be16_def ptr_add_def mem_of_def)
  then have b': "load_be16 ph \<noteq> 0xf500 \<or> 8 \<noteq> 4 + load_be16 (ptr_add ph 2)" by simp
  have m: "malloc_ok v" by (simp add: v_def vpninfo_new_def)
  note t = rx_frame_discards_bad_encap[OF a b', of 0 "[]"]
  from t have f: "rx_frame v ph 8 = Some (Rx_next False v)" by blast
  from t m have "rx_loop v 0 [(ph, 8)] = rx_loop (v\<lparr>cstp_pkt := True\<rparr>) 0 []" by blast
  then have l: "rx_loop v 0 [(ph, 8)] = Some (Rx_break (v\<lparr>cstp_pkt := True\<rparr>), 0)" by simp
  show ?thesis
    unfolding Let_def v_def[symmetric] ph_def[symmetric]
    using a b m f l by simp
qed

subsection \<open>C5: the magic number of an outgoing LCP Configure-Request\<close>













subsection \<open>C6: a received Terminate-Request\<close>

lemma terminate_request_code:
  assumes "p 0 = 5" "malloc_ok v"
  shows "handle_config_code v proto p len =
     Some (Returns (0, NCP_TERM_ACK_SENT,
           set_quit_reason (v\<lparr>tcp_control_queue := tcp_control_queue v @
              [\<lparr>pkt_proto = uint proto, pkt_hlen = 0, pkt_len = 4,
                pkt_data = [6, p 1, 0, 4], pkt_hdr = []\<rparr>]\<rparr>) p len))"
proof -
  have q: "queue_config_packet v proto (uint (p 1)) TERMACK 0 (mem_of []) =
     Returns (0, v\<lparr>tcp_control_queue := tcp_control_queue v @
        [\<lparr>pkt_proto = uint proto, pkt_hlen = 0, pkt_len = 4,
          pkt_data = [6, p 1, 0, 4], pkt_hdr = []\<rparr>]\<rparr>)"
    using queue_config_packet_ok[OF assms(2), of "[]" proto "uint (p 1)" TERMACK]
    by (simp add: TERMACK_def store_be16_def)
  show ?thesis
    using assms(1)
    by (simp add: handle_config_code_def Let_def CONFREQ_def CONFACK_def ECHOREQ_def TERMREQ_def q)
qed

text \<open>
  Claim C6 says that a Terminate-Request on a known NCP marks \<open>TERM_REQ_RECEIVED\<close> in
  that NCP's state, queues one Terminate-Ack with the same id, marks \<open>TERM_ACK_SENT\<close>,
  records trailing bytes as the quit reason and moves the session to TERMINATE. The code
  queues the Terminate-Ack and moves to TERMINATE, but once the Ack is queued it
  overwrites \<open>add_state\<close> (\<open>add_state = NCP_TERM_ACK_SENT\<close>) instead of adding to it;
  moreover \<open>NCP_TERM_ACK_SENT\<close> is 16, the value of \<open>NCP_TERM_REQ_SENT\<close>, while
  \<open>NCP_TERM_REQ_RECEIVED\<close> is 32. So the only bit the NCP's state gains is 16, and
  \<open>TERM_REQ_RECEIVED\<close> is never marked. The theorem gives the state the code produces
  for every Terminate-Request whose Ack can be allocated.
\<close>

theorem terminate_request_state:
  assumes "p 0 = 5" "malloc_ok v" "ncp_of_proto (uint proto) = Some ncp"
  shows "handle_config_packet v proto p len =
     Some (Returns
       (0, v\<lparr>tcp_control_queue := tcp_control_queue v @
                  [\<lparr>pkt_proto = uint proto, pkt_hlen = 0, pkt_len = 4,
                    pkt_data = [6, p 1, 0, 4], pkt_hdr = []\<rparr>],
               quit_reason := (if quit_reason v = None \<and> 4 < len
                               then strndup True (ptr_add p 4) (len - 4) else quit_reason v),
               ppp := ncp_state_or ncp NCP_TERM_ACK_SENT ((ppp v)\<lparr>ppp_state := PPPS_TERMINATE\<rparr>)\<rparr>))"
  using assms(2,3)
  by (cases ncp)
     (simp_all add: handle_config_packet_def terminate_request_code[of p v, OF assms(1,2)] set_quit_reason_def Let_def)

text \<open>
  A new session handles the LCP Terminate-Request \<open>05 07 00 04\<close>: one Terminate-Ack with
  id 7 is queued, the session is in TERMINATE, and the LCP state is 16 with the bit of
  \<open>NCP_TERM_REQ_RECEIVED\<close> clear.
\<close>

theorem terminate_request_state_witness:
  "(let v = vpninfo_new PPP_ENCAP_F5 1 0; p = mem_of [5, 7, 0, 4]
    in p 0 = 5 \<and> malloc_ok v \<and> ncp_of_proto (uint (0xc021 :: u16)) = Some Sel_lcp
       \<and> state (lcp (ppp v)) = 0
       \<and> (case handle_config_packet v 0xc021 p 4 of
            Some (Returns (r, v')) \<Rightarrow>
              r = 0 \<and> ppp_state (ppp v') = PPPS_TERMINATE
              \<and> tcp_control_queue v' = [\<lparr>pkt_proto = 0xc021, pkt_hlen = 0, pkt_len = 4,
                                          pkt_data = [6, 7, 0, 4], pkt_hdr = []\<rparr>]
              \<and> state (lcp (ppp v')) = 16
              \<and> state (lcp (ppp v')) AND NCP_TERM_REQ_RECEIVED = 0
          | _ \<Rightarrow> False))"
proof -
  define v where "v = vpninfo_new PPP_ENCAP_F5 1 0"
  define p where "p = mem_of [5, 7, 0, 4]"
  have a: "p 0 = 5" "malloc_ok v" "ncp_of_proto (uint (0xc021 :: u16)) = Some Sel_lcp"
    by (simp_all add: p_def mem_of_def v_def vpninfo_new_def ncp_of_proto_def PPP_LCP_def)
  have s: "state (lcp (ppp v)) = 0" "p 1 = 7" "tcp_control_queue v = []"
    by (simp_all add: v_def p_def mem_of_def vpninfo_new_def openconnect_ppp_new_def ncp_zero_def)
  note t = terminate_request_state[of p v "0xc021" Sel_lcp 4, OF a]
  show ?thesis
    unfolding Let_def v_def[symmetric] p_def[symmetric]
    using a s by (simp add: t NCP_TERM_ACK_SENT_def NCP_TERM_REQ_RECEIVED_def)
qed


subsection \<open>C8: a received Echo-Request\<close>

lemma store_be32_length: "length (store_be32 w) = 4"
  by (simp add: store_be32_def)

lemma echo_request_code:
  assumes "p 0 = 9"
  shows "handle_config_code v proto p len =
     (if PPPS_OPENED \<le> ppp_state (ppp v) then
        (case queue_config_packet v proto (uint (p 1)) ECHOREP 4
                (mem_of (store_be32 (out_lcp_magic (ppp v)))) of
           Overrun \<Rightarrow> Some Overrun
         | Returns (ret, v1) \<Rightarrow> Some (Returns (ret, 0, v1)))
      else Some (Returns (0, 0, v)))"
  using assms by (simp add: handle_config_code_def Let_def CONFREQ_def CONFACK_def ECHOREQ_def)

text \<open>
  Claim C8. For every packet whose code is Echo-Request (9), with any id \<open>p 1\<close>, any
  payload and any length: when the session state is OPENED or later, the code appends
  to the control queue exactly one packet, an Echo-Reply (code 10) with the same id and
  length 8 whose 4 payload bytes are \<open>out_lcp_magic\<close>, and changes nothing else; when
  the state is below OPENED the state is returned unchanged, nothing queued. The reply
  needs its packet to be allocated (\<open>malloc_ok\<close>). The value returned is 0 for the
  three protocols that \<open>ppp_mainloop\<close> dispatches.
\<close>

theorem echo_request_reply:
  assumes "p 0 = 9"
  shows "(PPPS_OPENED \<le> ppp_state (ppp v) \<and> malloc_ok v \<longrightarrow>
            handle_config_packet v proto p len =
              Some (Returns
                (if ncp_of_proto (uint proto) = None then - EINVAL else 0,
                 v\<lparr>tcp_control_queue := tcp_control_queue v @
                    [\<lparr>pkt_proto = uint proto, pkt_hlen = 0, pkt_len = 8,
                      pkt_data = [10, p 1, 0, 8] @ store_be32 (out_lcp_magic (ppp v)),
                      pkt_hdr = []\<rparr>]\<rparr>)))
       \<and> (ppp_state (ppp v) < PPPS_OPENED \<longrightarrow>
            handle_config_packet v proto p len =
              Some (Returns (if ncp_of_proto (uint proto) = None then - EINVAL else 0, v)))"
proof (intro conjI impI)
  assume a: "PPPS_OPENED \<le> ppp_state (ppp v) \<and> malloc_ok v"
  then have ok: "malloc_ok v" by simp
  have q: "queue_config_packet v proto (uint (p 1)) ECHOREP 4 (mem_of (store_be32 (out_lcp_magic (ppp v)))) =
     Returns (0, v\<lparr>tcp_control_queue := tcp_control_queue v @
        [\<lparr>pkt_proto = uint proto, pkt_hlen = 0, pkt_len = 8,
          pkt_data = [10, p 1, 0, 8] @ store_be32 (out_lcp_magic (ppp v)), pkt_hdr = []\<rparr>]\<rparr>)"
    using queue_config_packet_ok[OF ok, of "store_be32 (out_lcp_magic (ppp v))" proto "uint (p 1)" ECHOREP]
    by (simp add: store_be32_length ECHOREP_def store_be16_def)
  show "handle_config_packet v proto p len =
              Some (Returns
                (if ncp_of_proto (uint proto) = None then - EINVAL else 0,
                 v\<lparr>tcp_control_queue := tcp_control_queue v @
                    [\<lparr>pkt_proto = uint proto, pkt_hlen = 0, pkt_len = 8,
                      pkt_data = [10, p 1, 0, 8] @ store_be32 (out_lcp_magic (ppp v)),
                      pkt_hdr = []\<rparr>]\<rparr>))"
  proof (cases "ncp_of_proto (uint proto)")
    case None
    then show ?thesis using a by (simp add: handle_config_packet_def echo_request_code[of p, OF assms] q)
  next
    case (Some ncp)
    then show ?thesis using a
      by (cases ncp) (simp_all add: handle_config_packet_def echo_request_code[of p, OF assms] q)
  qed
next
  assume a: "ppp_state (ppp v) < PPPS_OPENED"
  show "handle_config_packet v proto p len
          = Some (Returns (if ncp_of_proto (uint proto) = None then - EINVAL else 0, v))"
  proof (cases "ncp_of_proto (uint proto)")
    case None
    then show ?thesis using a by (simp add: handle_config_packet_def echo_request_code[of p, OF assms])
  next
    case (Some ncp)
    then show ?thesis using a
      by (cases ncp) (simp_all add: handle_config_packet_def echo_request_code[of p, OF assms])
  qed
qed

text \<open>
  An LCP Echo-Request with id \<open>0x2a\<close> and payload \<open>DE AD BE EF\<close>, handled in state
  NETWORK with local magic \<open>0x21524110\<close>, and handled by a new session (state DEAD).
\<close>

theorem echo_request_reply_witness:
  "(let v = (vpninfo_new PPP_ENCAP_F5 1 0)
              \<lparr>ppp := (openconnect_ppp_new PPP_ENCAP_F5 1 0)\<lparr>ppp_state := PPPS_NETWORK, out_lcp_magic := 0x21524110\<rparr>\<rparr>;
        u = vpninfo_new PPP_ENCAP_F5 1 0;
        p = mem_of [9, 0x2a, 0, 8, 0xde, 0xad, 0xbe, 0xef]
    in p 0 = 9 \<and> PPPS_OPENED \<le> ppp_state (ppp v) \<and> malloc_ok v
       \<and> handle_config_packet v 0xc021 p 8 =
           Some (Returns (0, v\<lparr>tcp_control_queue :=
                        [\<lparr>pkt_proto = 0xc021, pkt_hlen = 0, pkt_len = 8,
                          pkt_data = [10, 0x2a, 0, 8, 0x21, 0x52, 0x41, 0x10], pkt_hdr = []\<rparr>]\<rparr>))
       \<and> ppp_state (ppp u) < PPPS_OPENED
       \<and> handle_config_packet u 0xc021 p 8 = Some (Returns (0, u)))"
proof -
  define v where "v = (vpninfo_new PPP_ENCAP_F5 1 0)
              \<lparr>ppp := (openconnect_ppp_new PPP_ENCAP_F5 1 0)\<lparr>ppp_state := PPPS_NETWORK, out_lcp_magic := 0x21524110\<rparr>\<rparr>"
  define u where "u = vpninfo_new PPP_ENCAP_F5 1 0"
  define p where "p = mem_of [9, 0x2a, 0, 8, 0xde, 0xad, 0xbe, 0xef]"
  have p0: "p 0 = 9" and p1: "p 1 = 0x2a" by (simp_all add: p_def mem_of_def)
  have a: "PPPS_OPENED \<le> ppp_state (ppp v) \<and> malloc_ok v"
    by (simp add: v_def vpninfo_new_def PPPS_OPENED_def PPPS_NETWORK_def)
  have b: "ppp_state (ppp u) < PPPS_OPENED"
    by (simp add: u_def vpninfo_new_def openconnect_ppp_new_def PPPS_OPENED_def)
  have n: "ncp_of_proto (uint (0xc021 :: u16)) = Some Sel_lcp" by (simp add: ncp_of_proto_def PPP_LCP_def)
  from echo_request_reply[of p, OF p0, of v "0xc021" 8] a n
  have r1: "handle_config_packet v 0xc021 p 8 =
              Some (Returns (0, v\<lparr>tcp_control_queue := tcp_control_queue v @
                       [\<lparr>pkt_proto = uint (0xc021 :: u16), pkt_hlen = 0, pkt_len = 8,
                         pkt_data = [10, p 1, 0, 8] @ store_be32 (out_lcp_magic (ppp v)),
                         pkt_hdr = []\<rparr>]\<rparr>))"
    by simp
  from echo_request_reply[of p, OF p0, of u "0xc021" 8] b n
  have r2: "handle_config_packet u 0xc021 p 8 = Some (Returns (0, u))" by simp
  have q: "tcp_control_queue v = []" "store_be32 (out_lcp_magic (ppp v)) = [0x21, 0x52, 0x41, 0x10]"
    by (simp_all add: v_def vpninfo_new_def store_be32_def)
  from r1 have r1': "handle_config_packet v 0xc021 p 8 =
           Some (Returns (0, v\<lparr>tcp_control_queue :=
                        [\<lparr>pkt_proto = 0xc021, pkt_hlen = 0, pkt_len = 8,
                          pkt_data = [10, 0x2a, 0, 8, 0x21, 0x52, 0x41, 0x10], pkt_hdr = []\<rparr>]\<rparr>))"
    by (simp add: q p1)
  show ?thesis
    unfolding Let_def
    using p0 a b r1' r2 unfolding v_def u_def p_def by simp
qed

subsection \<open>C7: the state NETWORK and the open NCPs\<close>

text \<open>
  Claim C7 says that the session is in NETWORK only if LCP has both \<open>CONF_ACK_SENT\<close> and
  \<open>CONF_ACK_RECEIVED\<close>, and so have IPCP and IP6CP when wanted. The code sets NETWORK
  only after testing the wanted IPCP and IP6CP, but LCP is not always tested on the way:
  in \<open>case PPPS_ESTABLISH\<close>, when LCP is not open and the retransmit deadline has not
  passed, neither branch is taken and control falls through into \<open>case PPPS_OPENED\<close>.
  The theorem shows the step: from ESTABLISH, with LCP lacking a Configure-Ack, less
  than 3 seconds after the last LCP Configure-Request and with every wanted IPCP and
  IP6CP open, the state machine sets NETWORK and changes nothing else.
\<close>

theorem network_without_lcp_open:
  assumes "ppp_state (ppp v) = PPPS_ESTABLISH"
    and "state (lcp (ppp v)) AND NCP_CONF_ACK_RECEIVED = 0 \<or> state (lcp (ppp v)) AND NCP_CONF_ACK_SENT = 0"
    and "now < last_req (lcp (ppp v)) + 3"
    and "want_ipv4 (ppp v) = 0 \<or> (state (ipcp (ppp v)) AND NCP_CONF_ACK_SENT \<noteq> 0
                                     \<and> state (ipcp (ppp v)) AND NCP_CONF_ACK_RECEIVED \<noteq> 0)"
    and "want_ipv6 (ppp v) = 0 \<or> (state (ip6cp (ppp v)) AND NCP_CONF_ACK_SENT \<noteq> 0
                                     \<and> state (ip6cp (ppp v)) AND NCP_CONF_ACK_RECEIVED \<noteq> 0)"
  shows "ppp_state_transitions v timeout now
           = Returns (Inr (v\<lparr>ppp := (ppp v)\<lparr>ppp_state := PPPS_NETWORK\<rparr>\<rparr>,
                           snd (ka_check_deadline timeout now (last_req (lcp (ppp v)) + 3))))"
proof -
  obtain t where k: "ka_check_deadline timeout now (last_req (lcp (ppp v)) + 3) = (False, t)"
    using assms(3) by (simp add: ka_check_deadline_def)
  have o: "ppp_case_opened v t now = Returns (v\<lparr>ppp := (ppp v)\<lparr>ppp_state := PPPS_NETWORK\<rparr>\<rparr>, t)"
    using assms(4,5) by (auto simp add: ppp_case_opened_def Let_def)
  have e: "ppp_case_establish v timeout now
             = Returns (v\<lparr>ppp := (ppp v)\<lparr>ppp_state := PPPS_NETWORK\<rparr>\<rparr>, t)"
    using assms(2) by (auto simp add: ppp_case_establish_def k o)
  show ?thesis
    using assms(1) by (simp add: ppp_state_transitions_def Let_def e k PPPS_ESTABLISH_def PPPS_DEAD_def)
qed

text \<open>
  Such a state is reached from a new session that wants IPv4, in three calls of
  \<open>ppp_mainloop\<close>: at time 100 the LCP Configure-Request is sent; at time 101 the
  peer's IPCP Configure-Request (\<open>F5 00 00 0E FF 03 80 21 01 01 00 0A 03 06 0A 00 00 01\<close>)
  and IPCP Configure-Ack (\<open>F5 00 00 08 FF 03 80 21 02 01 00 04\<close>) are read; at time 102
  the session moves to NETWORK, while the LCP state is still just \<open>CONF_REQ_SENT\<close>: no
  LCP Configure-Ack was sent or received.
\<close>

theorem network_without_lcp_open_witness:
  "(case ppp_mainloop_in (vpninfo_new PPP_ENCAP_F5 1 0) 1000 100 False [] of
      Some (Rx_break v1, _) \<Rightarrow>
        (case ppp_mainloop_in v1 1000 101 True
                [(mem_of [0xf5, 0, 0, 14, 0xff, 0x03, 0x80, 0x21, 1, 1, 0, 10, 3, 6, 10, 0, 0, 1], 18),
                 (mem_of [0xf5, 0, 0, 8, 0xff, 0x03, 0x80, 0x21, 2, 1, 0, 4], 12)] of
           Some (Rx_break v2, _) \<Rightarrow>
             ppp_state (ppp v2) = PPPS_ESTABLISH
             \<and> state (lcp (ppp v2)) AND NCP_CONF_ACK_RECEIVED = 0
             \<and> 102 < last_req (lcp (ppp v2)) + 3
             \<and> state (ipcp (ppp v2)) AND NCP_CONF_ACK_SENT \<noteq> 0
             \<and> state (ipcp (ppp v2)) AND NCP_CONF_ACK_RECEIVED \<noteq> 0
             \<and> want_ipv6 (ppp v2) = 0
             \<and> (case ppp_mainloop_in v2 1000 102 False [] of
                  Some (Rx_break v3, _) \<Rightarrow>
                     ppp_state (ppp v3) = PPPS_NETWORK
                     \<and> state (lcp (ppp v3)) = NCP_CONF_REQ_SENT
                     \<and> state (lcp (ppp v3)) AND NCP_CONF_ACK_RECEIVED = 0
                     \<and> state (lcp (ppp v3)) AND NCP_CONF_ACK_SENT = 0
                | _ \<Rightarrow> False)
         | _ \<Rightarrow> False)
    | _ \<Rightarrow> False)"
proof -
  have "(case ppp_mainloop_in (vpninfo_new PPP_ENCAP_F5 1 0) 1000 100 False [] of
      Some (Rx_break v1, _) \<Rightarrow>
        (case ppp_mainloop_in v1 1000 101 True
                [(mem_of [0xf5, 0, 0, 14, 0xff, 0x03, 0x80, 0x21, 1, 1, 0, 10, 3, 6, 10, 0, 0, 1], 18),
                 (mem_of [0xf5, 0, 0, 8, 0xff, 0x03, 0x80, 0x21, 2, 1, 0, 4], 12)] of
           Some (Rx_break v2, _) \<Rightarrow>
             ppp_state (ppp v2) = PPPS_ESTABLISH
             \<and> state (lcp (ppp v2)) AND NCP_CONF_ACK_RECEIVED = 0
             \<and> 102 < last_req (lcp (ppp v2)) + 3
             \<and> state (ipcp (ppp v2)) AND NCP_CONF_ACK_SENT \<noteq> 0
             \<and> state (ipcp (ppp v2)) AND NCP_CONF_ACK_RECEIVED \<noteq> 0
             \<and> want_ipv6 (ppp v2) = 0
             \<and> state (lcp (ppp v2)) = NCP_CONF_REQ_SENT \<and> ssl_fd v2 \<noteq> - 1
         | _ \<Rightarrow> False)
    | _ \<Rightarrow> False)"
    by code_simp
  then have "\<exists>v w. ppp_mainloop_in (vpninfo_new PPP_ENCAP_F5 1 0) 1000 100 False [] = Some (Rx_break v, w)
      \<and> (case ppp_mainloop_in v 1000 101 True
                [(mem_of [0xf5, 0, 0, 14, 0xff, 0x03, 0x80, 0x21, 1, 1, 0, 10, 3, 6, 10, 0, 0, 1], 18),
                 (mem_of [0xf5, 0, 0, 8, 0xff, 0x03, 0x80, 0x21, 2, 1, 0, 4], 12)] of
           Some (Rx_break v2, _) \<Rightarrow>
             ppp_state (ppp v2) = PPPS_ESTABLISH
             \<and> state (lcp (ppp v2)) AND NCP_CONF_ACK_RECEIVED = 0
             \<and> 102 < last_req (lcp (ppp v2)) + 3
             \<and> state (ipcp (ppp v2)) AND NCP_CONF_ACK_SENT \<noteq> 0
             \<and> state (ipcp (ppp v2)) AND NCP_CONF_ACK_RECEIVED \<noteq> 0
             \<and> want_ipv6 (ppp v2) = 0
             \<and> state (lcp (ppp v2)) = NCP_CONF_REQ_SENT \<and> ssl_fd v2 \<noteq> - 1
         | _ \<Rightarrow> False)"
    by (rule case_Rx_break)
  then obtain v1 w1 where
        c1: "ppp_mainloop_in (vpninfo_new PPP_ENCAP_F5 1 0) 1000 100 False [] = Some (Rx_break v1, w1)"
    and i1: "(case ppp_mainloop_in v1 1000 101 True
                [(mem_of [0xf5, 0, 0, 14, 0xff, 0x03, 0x80, 0x21, 1, 1, 0, 10, 3, 6, 10, 0, 0, 1], 18),
                 (mem_of [0xf5, 0, 0, 8, 0xff, 0x03, 0x80, 0x21, 2, 1, 0, 4], 12)] of
           Some (Rx_break v2, _) \<Rightarrow>
             ppp_state (ppp v2) = PPPS_ESTABLISH
             \<and> state (lcp (ppp v2)) AND NCP_CONF_ACK_RECEIVED = 0
             \<and> 102 < last_req (lcp (ppp v2)) + 3
             \<and> state (ipcp (ppp v2)) AND NCP_CONF_ACK_SENT \<noteq> 0
             \<and> state (ipcp (ppp v2)) AND NCP_CONF_ACK_RECEIVED \<noteq> 0
             \<and> want_ipv6 (ppp v2) = 0
             \<and> state (lcp (ppp v2)) = NCP_CONF_REQ_SENT \<and> ssl_fd v2 \<noteq> - 1
         | _ \<Rightarrow> False)"
    by blast
  from case_Rx_break[OF i1] obtain v2 w2 where
        c2: "ppp_mainloop_in v1 1000 101 True
                [(mem_of [0xf5, 0, 0, 14, 0xff, 0x03, 0x80, 0x21, 1, 1, 0, 10, 3, 6, 10, 0, 0, 1], 18),
                 (mem_of [0xf5, 0, 0, 8, 0xff, 0x03, 0x80, 0x21, 2, 1, 0, 4], 12)] = Some (Rx_break v2, w2)"
    and p: "ppp_state (ppp v2) = PPPS_ESTABLISH"
           "state (lcp (ppp v2)) AND NCP_CONF_ACK_RECEIVED = 0"
           "102 < last_req (lcp (ppp v2)) + 3"
           "state (ipcp (ppp v2)) AND NCP_CONF_ACK_SENT \<noteq> 0"
           "state (ipcp (ppp v2)) AND NCP_CONF_ACK_RECEIVED \<noteq> 0"
           "want_ipv6 (ppp v2) = 0"
           "state (lcp (ppp v2)) = NCP_CONF_REQ_SENT" "ssl_fd v2 \<noteq> - 1"
    by blast
  from network_without_lcp_open[of v2 102 1000] p
  have t: "ppp_state_transitions v2 1000 102
           = Returns (Inr (v2\<lparr>ppp := (ppp v2)\<lparr>ppp_state := PPPS_NETWORK\<rparr>\<rparr>,
                           snd (ka_check_deadline 1000 102 (last_req (lcp (ppp v2)) + 3))))"
    by blast
  have c3: "ppp_mainloop_in v2 1000 102 False []
              = Some (Rx_break (v2\<lparr>ppp := (ppp v2)\<lparr>ppp_state := PPPS_NETWORK\<rparr>\<rparr>), 0)"
    using p(8) by (simp add: ppp_mainloop_in_def t)
  show ?thesis
    using p
    by (simp add: c1 c2 c3 NCP_CONF_REQ_SENT_def NCP_CONF_ACK_SENT_def NCP_CONF_ACK_RECEIVED_def)
qed

subsection \<open>C9: the PPP header of an outgoing packet\<close>

text \<open>
  Claim C9 ties the compression of the outgoing header to what the peer advertised. The
  options of the peer's Configure-Request are kept in \<open>in_lcp_opts\<close>; the sending code
  reads \<open>out_lcp_opts\<close>, the options the engine itself requested, which
  \<open>queue_config_request\<close> sets to ACCOMP and PFCOMP. After a new session has built its
  first LCP Configure-Request the peer has advertised nothing, and yet an IPCP packet
  is sent without \<open>FF 03\<close>, where the rule of the claim, read with the peer's options,
  keeps the pair.
\<close>

theorem ppp_hdr_out_peer_options_counterexample:
  "(case queue_config_request (vpninfo_new PPP_ENCAP_F5 1 0) PPP_LCP 1 of
      Returns (r, v1) \<Rightarrow>
        (let s = ppp v1
         in in_lcp_opts s AND PFCOMP = 0 \<and> in_lcp_opts s AND ACCOMP = 0
            \<and> ppp_hdr_out s PPP_IPCP = [0x80, 0x21]
            \<and> spec_ppp_hdr_out (in_lcp_opts s AND PFCOMP \<noteq> 0) (in_lcp_opts s AND ACCOMP \<noteq> 0) PPP_IPCP
                = [0xff, 0x03, 0x80, 0x21])
    | Overrun \<Rightarrow> False)"
  by code_simp

text \<open>
  Claim C9 as amended: with the engine's own requested options \<open>out_lcp_opts\<close> in the
  place of what the peer advertised, the header written for each protocol the engine
  sends (LCP, IPCP, IP6CP, IPv4, IPv6) is the one the rule prescribes: one protocol byte
  iff PFCOMP is set and the number fits in one byte (\<open>0x21\<close> and \<open>0x57\<close>, both odd),
  else two bytes big-endian; \<open>FF 03\<close> omitted iff ACCOMP is set and the frame is not
  LCP; an LCP frame always in full. A packet taken from the outgoing data queue is
  always given protocol IPv4 or IPv6.
\<close>

theorem ppp_hdr_out_own_options:
  assumes "proto = PPP_LCP \<or> proto = PPP_IPCP \<or> proto = PPP_IP6CP \<or> proto = PPP_IP \<or> proto = PPP_IP6"
  shows "ppp_hdr_out s proto
           = spec_ppp_hdr_out (out_lcp_opts s AND PFCOMP \<noteq> 0) (out_lcp_opts s AND ACCOMP \<noteq> 0) proto
         \<and> ppp_hdr_out s PPP_LCP = [0xff, 0x03, 0xc0, 0x21]
         \<and> (\<forall>v this p v'. tcp_control_queue v = [] \<and> next_outgoing v = Some (this, p, v')
                \<longrightarrow> p = PPP_IP \<or> p = PPP_IP6)"
proof (intro conjI allI impI)
  show "ppp_hdr_out s proto
           = spec_ppp_hdr_out (out_lcp_opts s AND PFCOMP \<noteq> 0) (out_lcp_opts s AND ACCOMP \<noteq> 0) proto"
    using assms
    by (auto simp add: ppp_hdr_out_def spec_ppp_hdr_out_def Let_def PPP_LCP_def PPP_IPCP_def
        PPP_IP6CP_def PPP_IP_def PPP_IP6_def)
next
  show "ppp_hdr_out s PPP_LCP = [0xff, 0x03, 0xc0, 0x21]"
    by (simp add: ppp_hdr_out_def Let_def PPP_LCP_def)
next
  fix v this p v'
  assume "tcp_control_queue v = [] \<and> next_outgoing v = Some (this, p, v')"
  then show "p = PPP_IP \<or> p = PPP_IP6"
    by (auto simp add: next_outgoing_def split: if_splits list.splits)
qed

text \<open>
  After its first LCP Configure-Request the engine sends an IPv4 packet of 20 bytes
  with the one-byte protocol \<open>21\<close> and no \<open>FF 03\<close>, behind the F5 header
  \<open>F5 00 00 15\<close>.
\<close>

theorem ppp_hdr_out_own_options_witness:
  "(case queue_config_request (vpninfo_new PPP_ENCAP_F5 1 0) PPP_LCP 1 of
      Returns (r, v1) \<Rightarrow>
        (let s = ppp v1
         in out_lcp_opts s = 3
            \<and> ppp_hdr_out s PPP_IP = spec_ppp_hdr_out True True PPP_IP
            \<and> ppp_hdr_out s PPP_IP = [0x21]
            \<and> encap_hdr_out s 20 (ppp_hdr_out s PPP_IP) = [0xf5, 0x00, 0x00, 0x15, 0x21]
            \<and> ppp_hdr_out s PPP_LCP = [0xff, 0x03, 0xc0, 0x21])
    | Overrun \<Rightarrow> False)"
proof -
  have "(case queue_config_request (vpninfo_new PPP_ENCAP_F5 1 0) PPP_LCP 1 of
      Returns (r, v1) \<Rightarrow> out_lcp_opts (ppp v1) = 3 \<and> encap (ppp v1) = PPP_ENCAP_F5
    | Overrun \<Rightarrow> False)"
    by code_simp
  from case_Returns[OF this] obtain r v1 where
        q: "queue_config_request (vpninfo_new PPP_ENCAP_F5 1 0) PPP_LCP 1 = Returns (r, v1)"
    and o: "out_lcp_opts (ppp v1) = 3" and e: "encap (ppp v1) = PPP_ENCAP_F5"
    by blast
  define s where "s = ppp v1"
  have p: "PPP_IP = PPP_LCP \<or> PPP_IP = PPP_IPCP \<or> PPP_IP = PPP_IP6CP \<or> PPP_IP = PPP_IP \<or> PPP_IP = PPP_IP6"
    by simp
  note t = ppp_hdr_out_own_options[OF p, of s]
  from t o have a: "ppp_hdr_out s PPP_IP = spec_ppp_hdr_out True True PPP_IP"
    by (simp add: PFCOMP_def ACCOMP_def s_def)
  have b: "spec_ppp_hdr_out True True PPP_IP = [0x21]"
    by (simp add: spec_ppp_hdr_out_def PPP_IP_def PPP_LCP_def)
  have c: "encap_hdr_out s 20 [0x21] = [0xf5, 0x00, 0x00, 0x15, 0x21]"
    by (simp add: encap_hdr_out_def e s_def store_be16_def)
  from t have d: "ppp_hdr_out s PPP_LCP = [0xff, 0x03, 0xc0, 0x21]" by blast
  show ?thesis
    unfolding q using o a b c d by (simp add: s_def)
qed

end
